theory Spec2Isabelle
  imports Main "HOL-Library.Sublist"
begin

section \<open>Strings and paths\<close>

text \<open>
  The merge scripts are TypeScript programs for Node. Strings are modelled as
  \<^typ>\<open>string\<close>; the functions of this section embed the string operations of
  the JavaScript library and of Node's \<^verbatim>\<open>path\<close> module (POSIX flavour) that
  the scripts call.
\<close>

definition sq :: char where
  "sq = CHR 0x27"

text \<open>\<^verbatim>\<open>String.prototype.replace(pat, rep)\<close> with a string pattern: only the first
  occurrence is replaced; the empty pattern matches at position 0. The scripts
  pass replacement strings without \<^verbatim>\<open>$\<close>, so no replacement pattern is
  expanded.\<close>

fun replace_first :: "string \<Rightarrow> string \<Rightarrow> string \<Rightarrow> string" where
  "replace_first pat rep s =
     (if prefix pat s then rep @ drop (length pat) s
      else case s of [] \<Rightarrow> [] | c # cs \<Rightarrow> c # replace_first pat rep cs)"

declare replace_first.simps [simp del]

text \<open>\<^verbatim>\<open>path.basename(p)\<close>: trailing slashes are dropped, the last component
  is returned; a path of slashes only gives the empty string.\<close>

definition path_basename :: "string \<Rightarrow> string" where
  "path_basename p =
     (let q = dropWhile (\<lambda>c. c = CHR ''/'') (rev p)
      in rev (takeWhile (\<lambda>c. c \<noteq> CHR ''/'') q))"

text \<open>\<^verbatim>\<open>path.extname(p)\<close>: from the last dot of the last component to its end;
  empty when there is no dot, when the last dot is the first character of the
  component, and for the component \<^verbatim>\<open>..\<close>.\<close>

definition path_extname :: "string \<Rightarrow> string" where
  "path_extname p =
     (let c = path_basename p;
          i = length c - length (takeWhile (\<lambda>x. x \<noteq> CHR ''.'') (rev c)) - 1
      in if CHR ''.'' \<notin> set c \<or> i = 0 \<or> c = ''..'' then [] else drop i c)"

text \<open>Decimal rendering of a number inside a template literal.\<close>

function show_nat :: "nat \<Rightarrow> string" where
  "show_nat n =
     (if n < 10 then [''0123456789'' ! n]
      else show_nat (n div 10) @ [''0123456789'' ! (n mod 10)])"
  by pat_completeness auto
termination
  by (relation "measure id") auto

declare show_nat.simps [simp del]

definition ascii_lower :: "char \<Rightarrow> char" where
  "ascii_lower c =
     (case map_of (zip ''ABCDEFGHIJKLMNOPQRSTUVWXYZ'' ''abcdefghijklmnopqrstuvwxyz'') c of
        Some l \<Rightarrow> l
      | None \<Rightarrow> c)"

text \<open>\<^verbatim>\<open>filepath.split('/').pop()\<close>: the text after the last slash.\<close>

definition split_pop :: "string \<Rightarrow> string" where
  "split_pop p = rev (takeWhile (\<lambda>c. c \<noteq> CHR ''/'') (rev p))"

text \<open>\<^verbatim>\<open>s.replace(/\.gpkg$/i, '')\<close>: a final \<^verbatim>\<open>.gpkg\<close>, in any letter case,
  is removed.\<close>

definition strip_gpkg_suffix :: "string \<Rightarrow> string" where
  "strip_gpkg_suffix s =
     (if 5 \<le> length s \<and> map ascii_lower (drop (length s - 5) s) = ''.gpkg''
      then take (length s - 5) s else s)"

section \<open>Output file name\<close>

text \<open>\<^verbatim>\<open>getName\<close> and \<^verbatim>\<open>createOutputFilename\<close> of \<^verbatim>\<open>merge.ts\<close> (lines 64-79).
  The optional third argument is \<^verbatim>\<open>undefined\<close> when absent; the test
  \<^verbatim>\<open>if (customOutput)\<close> is false for \<^verbatim>\<open>undefined\<close> and for the empty string.\<close>

definition getName :: "string \<Rightarrow> string" where
  "getName filepath =
     (let basename = path_basename filepath;
          extname = path_extname basename
      in replace_first extname [] basename)"

definition createOutputFilename :: "string \<Rightarrow> string \<Rightarrow> string option \<Rightarrow> string" where
  "createOutputFilename file1 file2 customOutput =
     (case customOutput of
        Some c \<Rightarrow>
          if c \<noteq> [] then c
          else ''merged_'' @ getName file1 @ ''_'' @ getName file2 @ ''.gpkg''
      | None \<Rightarrow> ''merged_'' @ getName file1 @ ''_'' @ getName file2 @ ''.gpkg'')"

text \<open>The same two functions in the earlier variant of the script
  (\<^verbatim>\<open>src/unnamed/part_000\<close>, lines 35-50).\<close>

definition getName_p0 :: "string \<Rightarrow> string" where
  "getName_p0 filepath =
     (let filename = (if split_pop filepath \<noteq> [] then split_pop filepath else filepath)
      in strip_gpkg_suffix filename)"

definition createOutputFilename_p0 :: "string \<Rightarrow> string \<Rightarrow> string option \<Rightarrow> string" where
  "createOutputFilename_p0 file1 file2 customOutput =
     (case customOutput of
        Some c \<Rightarrow>
          if c \<noteq> [] then c
          else ''merged_'' @ getName_p0 file1 @ ''_'' @ getName_p0 file2 @ ''.gpkg''
      | None \<Rightarrow> ''merged_'' @ getName_p0 file1 @ ''_'' @ getName_p0 file2 @ ''.gpkg'')"

section \<open>The catalog and the reserved-namespace filter\<close>

text \<open>A row of \<^verbatim>\<open>sqlite_master\<close>; the column \<^verbatim>\<open>sql\<close> may be NULL.\<close>

record catalog_entry =
  ce_type :: string
  ce_name :: string
  ce_sql :: "string option"

record database =
  catalog :: "catalog_entry list"
  rowcount :: "string \<Rightarrow> nat"

text \<open>The SQL operator \<^verbatim>\<open>LIKE\<close> as SQLite evaluates it by default: \<^verbatim>\<open>%\<close>
  matches any run of characters, \<^verbatim>\<open>_\<close> matches one character, and ASCII
  letters match without regard to case. The first argument is the pattern.\<close>

fun sql_like :: "string \<Rightarrow> string \<Rightarrow> bool" where
  "sql_like [] [] = True"
| "sql_like [] (c # cs) = False"
| "sql_like (p # ps) [] = (p = CHR ''%'' \<and> sql_like ps [])"
| "sql_like (p # ps) (c # cs) =
     (if p = CHR ''%'' then sql_like ps (c # cs) \<or> sql_like (p # ps) cs
      else (p = CHR ''_'' \<or> ascii_lower p = ascii_lower c) \<and> sql_like ps cs)"

text \<open>The query of \<^verbatim>\<open>getDataTables\<close> (\<^verbatim>\<open>merge.ts\<close> lines 83-91, the same text
  in \<^verbatim>\<open>part_000\<close> lines 55-63 and twice in \<^verbatim>\<open>part_002\<close> lines 33-47).\<close>

definition data_tables_query :: "database \<Rightarrow> string list" where
  "data_tables_query db =
     map ce_name
       (filter (\<lambda>e. ce_type e = ''table''
                  \<and> \<not> sql_like ''sqlite_%'' (ce_name e)
                  \<and> \<not> sql_like ''gpkg_%'' (ce_name e)
                  \<and> \<not> sql_like ''rtree_%'' (ce_name e))
          (catalog db))"

text \<open>The query of \<^verbatim>\<open>part_001\<close> (lines 27-32), which has two exclusions.\<close>

definition tables_query_p1 :: "database \<Rightarrow> string list" where
  "tables_query_p1 db =
     map ce_name
       (filter (\<lambda>e. ce_type e = ''table''
                  \<and> \<not> sql_like ''sqlite_%'' (ce_name e)
                  \<and> \<not> sql_like ''gpkg_%'' (ce_name e))
          (catalog db))"

section \<open>The world outside the scripts\<close>

text \<open>
  The scripts act on a file system and on the SQLite engine (through
  \<^verbatim>\<open>better-sqlite3\<close>). A file is modelled by the database it holds. What the
  engine and the operating system decide on their own (a failing copy, a
  constraint violation during an insert, the clock) is a field of the record
  \<open>world\<close>; every theorem below holds for every world. A field of type
  \<^typ>\<open>string option\<close> gives the message of the exception the call throws, or
  \<open>None\<close> when it succeeds.
\<close>

record world =
  now :: nat
  copy_err :: "string \<Rightarrow> string \<Rightarrow> string option"
  unlink_err :: "string \<Rightarrow> string option"
  open_err :: "string \<Rightarrow> bool \<Rightarrow> string option"
  query_err :: "string \<Rightarrow> string option"
  count_err :: "string \<Rightarrow> string \<Rightarrow> string option"
  attach_err :: "string \<Rightarrow> string option"
  other_sql :: "string \<Rightarrow> string option"
  create_err :: "database \<Rightarrow> string \<Rightarrow> string option"
  create_name :: "string \<Rightarrow> string"
  insert_res :: "database \<Rightarrow> string \<Rightarrow> string + nat"
  insert_ignore_res :: "database \<Rightarrow> string \<Rightarrow> string + nat"
  detach_err :: "string option"
  close_err :: "string \<Rightarrow> string option"

text \<open>A JavaScript error object: its message and the \<^verbatim>\<open>status\<close> property, which
  only the scripts' own validation sets (to \<^verbatim>\<open>StatusCodes.BAD_REQUEST\<close>, 400).\<close>

record js_error =
  message :: string
  status :: "nat option"

definition BAD_REQUEST :: nat where
  "BAD_REQUEST = 400"

definition plain_error :: "string \<Rightarrow> js_error" where
  "plain_error m = \<lparr>message = m, status = None\<rparr>"

definition bad_request_error :: "string \<Rightarrow> js_error" where
  "bad_request_error m = \<lparr>message = m, status = Some BAD_REQUEST\<rparr>"

text \<open>What a run does to the outside is recorded in a trace. Console lines that
  carry no data (step banners, check marks) are left out.\<close>

datatype console_line =
    Banner
  | Usage
  | DatasetSize string
  | OutputExists string
  | Merging
  | Processing string
  | CreatingTable string
  | TableCreated
  | TableSkipped string
  | RowsAdded string nat
  | TableRows string nat
  | TableError string string
  | MergeComplete nat string
  | Failed string

datatype event =
    Console console_line
  | FsCopy string string
  | FsUnlink string
  | DbOpen string bool
  | SqlAttach string
  | SqlCreate string
  | SqlInsert string nat
  | SqlDetach
  | DbClose string

record state =
  files :: "string \<rightharpoonup> database"
  trace :: "event list"

definition emit :: "event \<Rightarrow> state \<Rightarrow> state" where
  "emit ev s = s\<lparr>trace := trace s @ [ev]\<rparr>"

text \<open>A statement either throws (\<open>Inl\<close>) or returns a value (\<open>Inr\<close>); in both
  cases the state it leaves is kept.\<close>

type_synonym 'a io = "state \<Rightarrow> (js_error + 'a) \<times> state"

definition io_return :: "'a \<Rightarrow> 'a io" where
  "io_return x = (\<lambda>s. (Inr x, s))"

definition io_bind :: "'a io \<Rightarrow> ('a \<Rightarrow> 'b io) \<Rightarrow> 'b io" where
  "io_bind m f = (\<lambda>s. case m s of (Inl e, s') \<Rightarrow> (Inl e, s') | (Inr x, s') \<Rightarrow> f x s')"

text \<open>\<^verbatim>\<open>try { m } catch (err) { h err }\<close>\<close>

definition io_catch :: "'a io \<Rightarrow> (js_error \<Rightarrow> 'a io) \<Rightarrow> 'a io" where
  "io_catch m h = (\<lambda>s. case m s of (Inl e, s') \<Rightarrow> h e s' | (Inr x, s') \<Rightarrow> (Inr x, s'))"

definition console_log :: "console_line \<Rightarrow> unit io" where
  "console_log l = (\<lambda>s. (Inr (), emit (Console l) s))"

subsection \<open>File system calls\<close>

definition existsSync :: "state \<Rightarrow> string \<Rightarrow> bool" where
  "existsSync s p = (files s p \<noteq> None)"

definition statSync :: "string \<Rightarrow> unit io" where
  "statSync p =
     (\<lambda>s. if existsSync s p then (Inr (), s)
          else (Inl (plain_error (''ENOENT: no such file or directory, stat '' @ p)), s))"

text \<open>\<^verbatim>\<open>fs.copyFileSync(src, dst)\<close> replaces an existing destination.\<close>

definition copyFileSync :: "world \<Rightarrow> string \<Rightarrow> string \<Rightarrow> unit io" where
  "copyFileSync w src dst =
     (\<lambda>s. case files s src of
            None \<Rightarrow> (Inl (plain_error (''ENOENT: no such file or directory, copyfile '' @ src)), s)
          | Some d \<Rightarrow>
              (case copy_err w src dst of
                 Some m \<Rightarrow> (Inl (plain_error m), s)
               | None \<Rightarrow> (Inr (), emit (FsCopy src dst) (s\<lparr>files := (files s)(dst \<mapsto> d)\<rparr>))))"

definition unlinkSync :: "world \<Rightarrow> string \<Rightarrow> unit io" where
  "unlinkSync w p =
     (\<lambda>s. case files s p of
            None \<Rightarrow> (Inl (plain_error (''ENOENT: no such file or directory, unlink '' @ p)), s)
          | Some d \<Rightarrow>
              (case unlink_err w p of
                 Some m \<Rightarrow> (Inl (plain_error m), s)
               | None \<Rightarrow> (Inr (), emit (FsUnlink p) (s\<lparr>files := (files s)(p := None)\<rparr>))))"

subsection \<open>Database calls\<close>

definition empty_database :: database where
  "empty_database = \<lparr>catalog = [], rowcount = (\<lambda>t. 0)\<rparr>"

text \<open>\<^verbatim>\<open>new Database(path, {readonly})\<close>. A handle is the path of its file. A
  read-write open creates a missing file, a read-only open of a missing file
  throws.\<close>

definition open_database :: "world \<Rightarrow> string \<Rightarrow> bool \<Rightarrow> string io" where
  "open_database w path readonly =
     (\<lambda>s. case open_err w path readonly of
            Some m \<Rightarrow> (Inl (plain_error m), s)
          | None \<Rightarrow>
              (case files s path of
                 Some d \<Rightarrow> (Inr path, emit (DbOpen path readonly) s)
               | None \<Rightarrow>
                   if readonly then (Inl (plain_error ''unable to open database file''), s)
                   else (Inr path,
                         emit (DbOpen path readonly)
                           (s\<lparr>files := (files s)(path \<mapsto> empty_database)\<rparr>))))"

definition close_database :: "world \<Rightarrow> string \<Rightarrow> unit io" where
  "close_database w h =
     (\<lambda>s. case close_err w h of
            Some m \<Rightarrow> (Inl (plain_error m), s)
          | None \<Rightarrow> (Inr (), emit (DbClose h) s))"

text \<open>Running a catalog listing on a handle.\<close>

definition run_listing :: "world \<Rightarrow> (database \<Rightarrow> string list) \<Rightarrow> string \<Rightarrow> string list io" where
  "run_listing w q h =
     (\<lambda>s. case query_err w h of
            Some m \<Rightarrow> (Inl (plain_error m), s)
          | None \<Rightarrow>
              (case files s h of
                 None \<Rightarrow> (Inl (plain_error ''unable to open database file''), s)
               | Some db \<Rightarrow> (Inr (q db), s)))"

text \<open>\<^verbatim>\<open>SELECT ... FROM sqlite_master WHERE type='table' AND name = ?\<close> with
  \<^verbatim>\<open>.get(tableName)\<close>: the first matching row, if any. The comparison is exact.\<close>

definition master_row :: "state \<Rightarrow> string \<Rightarrow> string \<Rightarrow> catalog_entry option" where
  "master_row s h tableName =
     (case files s h of
        None \<Rightarrow> None
      | Some db \<Rightarrow> find (\<lambda>e. ce_type e = ''table'' \<and> ce_name e = tableName) (catalog db))"

text \<open>\<^verbatim>\<open>targetDb.exec(sql)\<close> for a create statement read from the source catalog:
  the engine either rejects it or adds the table it declares to the catalog.\<close>

definition exec_create :: "world \<Rightarrow> string \<Rightarrow> string \<Rightarrow> unit io" where
  "exec_create w h sql =
     (\<lambda>s. case files s h of
            None \<Rightarrow> (Inl (plain_error ''unable to open database file''), s)
          | Some db \<Rightarrow>
              (case create_err w db sql of
                 Some m \<Rightarrow> (Inl (plain_error m), s)
               | None \<Rightarrow>
                   (Inr (),
                    emit (SqlCreate sql)
                      (s\<lparr>files := (files s)(h \<mapsto>
                           db\<lparr>catalog := catalog db @
                                [\<lparr>ce_type = ''table'', ce_name = create_name w sql,
                                  ce_sql = Some sql\<rparr>]\<rparr>)\<rparr>))))"

text \<open>\<^verbatim>\<open>INSERT [OR IGNORE] INTO t SELECT * FROM source_db.t\<close> with \<^verbatim>\<open>.run()\<close>: the
  engine throws (constraint violation, type mismatch, missing table) or reports
  the number of rows it inserted.\<close>

definition run_insert :: "(database \<Rightarrow> string \<Rightarrow> string + nat) \<Rightarrow> string \<Rightarrow> string \<Rightarrow> nat io" where
  "run_insert res h tableName =
     (\<lambda>s. case files s h of
            None \<Rightarrow> (Inl (plain_error ''unable to open database file''), s)
          | Some db \<Rightarrow>
              (case res db tableName of
                 Inl m \<Rightarrow> (Inl (plain_error m), s)
               | Inr changes \<Rightarrow>
                   (Inr changes,
                    emit (SqlInsert tableName changes)
                      (s\<lparr>files := (files s)(h \<mapsto>
                           db\<lparr>rowcount := (rowcount db)
                                (tableName := rowcount db tableName + changes)\<rparr>)\<rparr>))))"

text \<open>\<^verbatim>\<open>SELECT COUNT(*) as count FROM t\<close>\<close>

definition count_rows :: "world \<Rightarrow> string \<Rightarrow> string \<Rightarrow> nat io" where
  "count_rows w h tableName =
     (\<lambda>s. case count_err w h tableName of
            Some m \<Rightarrow> (Inl (plain_error m), s)
          | None \<Rightarrow>
              (case files s h of
                 None \<Rightarrow> (Inl (plain_error ''unable to open database file''), s)
               | Some db \<Rightarrow> (Inr (rowcount db tableName), s)))"

subsection \<open>The attach statement\<close>

text \<open>All four scripts build the statement with the template
  \<^verbatim>\<open>`ATTACH DATABASE '${file2}' AS source_db`\<close>.\<close>

definition attach_sql :: "string \<Rightarrow> string" where
  "attach_sql file2 = ''ATTACH DATABASE '' @ [sq] @ file2 @ [sq] @ '' AS source_db''"

text \<open>
  How the engine reads the statement is modelled as far as SQL's quoting rule
  determines it. Inside a string literal two adjacent single quotes stand for
  one quote character and a single one ends the literal.
  \<^item> \<open>sql_string_body\<close> reads a literal after its opening quote and returns
    its value and the text behind the closing quote.
  \<^item> \<open>parse_attach\<close> recognises the statement the scripts mean to build: one
    literal followed by \<^verbatim>\<open> AS source_db\<close>, and returns the file it names.
  \<^item> \<open>sql_unterminated\<close>: a statement with an odd number of single quotes and
    with none of the characters that open a comment (\<^verbatim>\<open>--\<close>, \<^verbatim>\<open>/*\<close>) or
    another kind of quoting ends inside a string literal; the engine rejects it.
  \<^item> For any other text the verdict is left to the world (\<open>other_sql\<close>).
\<close>

fun sql_string_body :: "string \<Rightarrow> (string \<times> string) option" where
  "sql_string_body [] = None"
| "sql_string_body [c] = (if c = sq then Some ([], []) else None)"
| "sql_string_body (c # d # ds) =
     (if c = sq then
        (if d = sq then map_option (\<lambda>(l, r). (sq # l, r)) (sql_string_body ds)
         else Some ([], d # ds))
      else map_option (\<lambda>(l, r). (c # l, r)) (sql_string_body (d # ds)))"

definition parse_attach :: "string \<Rightarrow> string option" where
  "parse_attach sql =
     (if prefix (''ATTACH DATABASE '' @ [sq]) sql then
        (case sql_string_body (drop 17 sql) of
           Some (lit, rest) \<Rightarrow> if rest = '' AS source_db'' then Some lit else None
         | None \<Rightarrow> None)
      else None)"

definition sql_unterminated :: "string \<Rightarrow> bool" where
  "sql_unterminated sql =
     (odd (count_list sql sq)
      \<and> CHR 0x22 \<notin> set sql \<and> CHR 0x60 \<notin> set sql \<and> CHR ''['' \<notin> set sql
      \<and> CHR ''-'' \<notin> set sql \<and> CHR ''*'' \<notin> set sql)"

definition exec_attach :: "world \<Rightarrow> string \<Rightarrow> string \<Rightarrow> unit io" where
  "exec_attach w h sql =
     (\<lambda>s. if sql_unterminated sql then (Inl (plain_error ''unrecognized token''), s)
          else
            (case (case parse_attach sql of
                     Some p \<Rightarrow> attach_err w p
                   | None \<Rightarrow> other_sql w sql) of
               Some m \<Rightarrow> (Inl (plain_error m), s)
             | None \<Rightarrow> (Inr (), emit (SqlAttach sql) s)))"

text \<open>\<^verbatim>\<open>targetDb.exec('DETACH DATABASE source_db')\<close>\<close>

definition exec_detach :: "world \<Rightarrow> string \<Rightarrow> unit io" where
  "exec_detach w h =
     (\<lambda>s. case detach_err w of
            Some m \<Rightarrow> (Inl (plain_error m), s)
          | None \<Rightarrow> (Inr (), emit SqlDetach s))"

section \<open>The merge script \<^verbatim>\<open>merge.ts\<close>\<close>

fun join_with :: "string \<Rightarrow> string list \<Rightarrow> string" where
  "join_with sep [] = []"
| "join_with sep [x] = x"
| "join_with sep (x # y # ys) = x @ sep @ join_with sep (y # ys)"

text \<open>Lines 37-51. \<^verbatim>\<open>.filter(Boolean)\<close> drops \<^verbatim>\<open>null\<close> and the empty string.\<close>

definition validateFilesExist :: "string \<Rightarrow> string \<Rightarrow> unit io" where
  "validateFilesExist file1 file2 =
     (\<lambda>s. let file1Exists = existsSync s file1;
              file2Exists = existsSync s file2
          in if \<not> file1Exists \<or> \<not> file2Exists then
               (let missingFiles =
                      join_with '', ''
                        (filter (\<lambda>f. f \<noteq> [])
                           ((if \<not> file1Exists then [file1] else []) @
                            (if \<not> file2Exists then [file2] else [])))
                in (Inl (bad_request_error (''Missing file(s): '' @ missingFiles)), s))
             else (Inr (), s))"

text \<open>Lines 53-62.\<close>

definition logFileSizes :: "string \<Rightarrow> string \<Rightarrow> (string \<times> string) io" where
  "logFileSizes file1 file2 =
     io_bind (statSync file1) (\<lambda>_.
     io_bind (statSync file2) (\<lambda>_.
     io_bind (console_log (DatasetSize (getName file1))) (\<lambda>_.
     io_bind (console_log (DatasetSize (getName file2))) (\<lambda>_.
     io_return (getName file1, getName file2)))))"

text \<open>Lines 83-98.\<close>

definition getDataTables :: "world \<Rightarrow> string \<Rightarrow> string list io" where
  "getDataTables w database = run_listing w data_tables_query database"

definition tableExists :: "state \<Rightarrow> string \<Rightarrow> string \<Rightarrow> bool" where
  "tableExists s targetDb tableName = (master_row s targetDb tableName \<noteq> None)"

text \<open>The create statement of a table as the scripts test it
  (\<^verbatim>\<open>createTableSQL && createTableSQL.sql\<close>, \<^verbatim>\<open>createTableSQL?.sql\<close>): a row must
  exist and its \<^verbatim>\<open>sql\<close> column must be neither NULL nor empty.\<close>

definition create_statement :: "state \<Rightarrow> string \<Rightarrow> string \<Rightarrow> string option" where
  "create_statement s sourceDb tableName =
     (case master_row s sourceDb tableName of
        None \<Rightarrow> None
      | Some row \<Rightarrow>
          (case ce_sql row of
             None \<Rightarrow> None
           | Some sql \<Rightarrow> if sql \<noteq> [] then Some sql else None))"

text \<open>Lines 100-116.\<close>

definition createTableIfNotExists :: "world \<Rightarrow> string \<Rightarrow> string \<Rightarrow> string \<Rightarrow> unit io" where
  "createTableIfNotExists w sourceDb targetDb tableName =
     (\<lambda>s. if tableExists s targetDb tableName then (Inr (), s)
          else
            io_bind (console_log (CreatingTable tableName)) (\<lambda>_ s1.
              case create_statement s1 sourceDb tableName of
                Some sql \<Rightarrow> exec_create w targetDb sql s1
              | None \<Rightarrow>
                  (Inl (plain_error (''Could not get table structure for '' @ tableName)), s1)) s)"

text \<open>Lines 118-130. \<^verbatim>\<open>result.changes || 0\<close> is the number of changes.\<close>

definition insertTableData :: "world \<Rightarrow> string \<Rightarrow> string \<Rightarrow> nat io" where
  "insertTableData w targetDb tableName = run_insert (insert_res w) targetDb tableName"

definition processTable :: "world \<Rightarrow> string \<Rightarrow> string \<Rightarrow> string \<Rightarrow> nat io" where
  "processTable w sourceDb targetDb tableName =
     io_bind (createTableIfNotExists w sourceDb targetDb tableName) (\<lambda>_.
     insertTableData w targetDb tableName)"

text \<open>Lines 137-147: the output path and the copy of the base file.\<close>

definition disambiguate :: "world \<Rightarrow> string \<Rightarrow> string" where
  "disambiguate w outputFilename =
     (let timestamp = now w;
          ext = path_extname outputFilename;
          nameWithoutExt = replace_first ext [] outputFilename
      in nameWithoutExt @ ''_'' @ show_nat timestamp @ ext)"

definition copy_base :: "world \<Rightarrow> string \<Rightarrow> string \<Rightarrow> string io" where
  "copy_base w file1 outputFilename =
     (\<lambda>s. if existsSync s outputFilename then
            io_bind (console_log (OutputExists (disambiguate w outputFilename))) (\<lambda>_.
            io_bind (copyFileSync w file1 (disambiguate w outputFilename)) (\<lambda>_.
            io_return (disambiguate w outputFilename))) s
          else
            io_bind (copyFileSync w file1 outputFilename) (\<lambda>_.
            io_return outputFilename) s)"

text \<open>Lines 156-165: the loop over the source tables. Its \<^verbatim>\<open>catch\<close> prints the
  error and throws it again.\<close>

fun merge_tables :: "world \<Rightarrow> string \<Rightarrow> string \<Rightarrow> string list \<Rightarrow> nat \<Rightarrow> nat io" where
  "merge_tables w sourceDb targetDb [] totalMerged s = (Inr totalMerged, s)"
| "merge_tables w sourceDb targetDb (t # ts) totalMerged s =
     (case processTable w sourceDb targetDb t s of
        (Inl err, s') \<Rightarrow> (Inl err, emit (Console (TableError t (message err))) s')
      | (Inr rowsAdded, s') \<Rightarrow>
          merge_tables w sourceDb targetDb ts (totalMerged + rowsAdded) s')"

text \<open>Lines 149-175: the part of the \<^verbatim>\<open>try\<close> block that works on the copy
  \<open>out\<close> of the base file.\<close>

definition merge_into :: "world \<Rightarrow> string \<Rightarrow> string \<Rightarrow> nat io" where
  "merge_into w file2 out =
     io_bind (open_database w out False) (\<lambda>targetDb.
     io_bind (open_database w file2 True) (\<lambda>sourceDb.
     io_bind (getDataTables w sourceDb) (\<lambda>sourceTables.
     io_bind (console_log Merging) (\<lambda>_.
     io_bind (exec_attach w targetDb (attach_sql file2)) (\<lambda>_.
     io_bind (merge_tables w sourceDb targetDb sourceTables 0) (\<lambda>totalMerged.
     io_bind (exec_detach w targetDb) (\<lambda>_.
     io_bind (close_database w sourceDb) (\<lambda>_.
     io_bind (close_database w targetDb) (\<lambda>_.
     io_bind (statSync out) (\<lambda>_.
     io_bind (console_log (MergeComplete totalMerged out)) (\<lambda>_.
     io_return totalMerged)))))))))))"

text \<open>Lines 132-176: the body of the \<^verbatim>\<open>try\<close> block.\<close>

definition merge_try :: "world \<Rightarrow> string \<Rightarrow> string \<Rightarrow> string \<Rightarrow> nat io" where
  "merge_try w file1 file2 outputFilename =
     io_bind (validateFilesExist file1 file2) (\<lambda>_.
     io_bind (logFileSizes file1 file2) (\<lambda>names.
     io_bind (copy_base w file1 outputFilename) (\<lambda>out.
     merge_into w file2 out)))"

text \<open>The whole script: the argument check of lines 18-32, the \<^verbatim>\<open>try\<close> block and
  the \<^verbatim>\<open>catch\<close> of lines 177-181. A script that reaches its end leaves the
  process with exit code 0.\<close>

datatype run_outcome = Completed nat | UsageExit | Aborted js_error

record run_result =
  exit_code :: nat
  outcome :: run_outcome
  final :: state

definition optional_arg :: "string list \<Rightarrow> nat \<Rightarrow> string option" where
  "optional_arg args i = (if i < length args then Some (args ! i) else None)"

definition merge_ts :: "world \<Rightarrow> string list \<Rightarrow> state \<Rightarrow> run_result" where
  "merge_ts w args s0 =
     (let s = emit (Console Banner) s0
      in if length args < 2 then
           \<lparr>exit_code = 1, outcome = UsageExit, final = emit (Console Usage) s\<rparr>
         else
           (let file1 = args ! 0;
                file2 = args ! 1;
                outputFilename = createOutputFilename file1 file2 (optional_arg args 2)
            in case merge_try w file1 file2 outputFilename s of
                 (Inl error, s') \<Rightarrow>
                   \<lparr>exit_code = (if status error = Some BAD_REQUEST then 1 else 2),
                    outcome = Aborted error,
                    final = emit (Console (Failed (message error))) s'\<rparr>
               | (Inr totalMerged, s') \<Rightarrow>
                   \<lparr>exit_code = 0, outcome = Completed totalMerged, final = s'\<rparr>))"

section \<open>The earlier variant \<^verbatim>\<open>part_000\<close>\<close>

text \<open>Lines 73-92: a missing create statement is reported by the value
  \<^verbatim>\<open>false\<close>.\<close>

definition createTableIfNotExists_p0 :: "world \<Rightarrow> string \<Rightarrow> string \<Rightarrow> string \<Rightarrow> bool io" where
  "createTableIfNotExists_p0 w sourceDb targetDb tableName =
     (\<lambda>s. if tableExists s targetDb tableName then (Inr True, s)
          else
            io_bind (console_log (CreatingTable tableName)) (\<lambda>_ s1.
              case create_statement s1 sourceDb tableName of
                Some sql \<Rightarrow>
                  io_bind (exec_create w targetDb sql) (\<lambda>_.
                  io_bind (console_log TableCreated) (\<lambda>_.
                  io_return True)) s1
              | None \<Rightarrow>
                  io_bind (console_log (TableSkipped tableName)) (\<lambda>_.
                  io_return False) s1) s)"

text \<open>Lines 94-103.\<close>

definition insertTableData_p0 :: "world \<Rightarrow> string \<Rightarrow> string \<Rightarrow> nat io" where
  "insertTableData_p0 w targetDb tableName =
     io_bind (run_insert (insert_res w) targetDb tableName) (\<lambda>rowsAdded.
     io_bind (console_log (RowsAdded tableName rowsAdded)) (\<lambda>_.
     io_return rowsAdded))"

text \<open>Lines 105-122: the \<^verbatim>\<open>try\<close> block is inside the function, and its
  \<^verbatim>\<open>catch\<close> returns 0.\<close>

definition processTable_p0 :: "world \<Rightarrow> string \<Rightarrow> string \<Rightarrow> string \<Rightarrow> nat io" where
  "processTable_p0 w sourceDb targetDb tableName =
     io_bind (console_log (Processing tableName)) (\<lambda>_.
     io_catch
       (io_bind (createTableIfNotExists_p0 w sourceDb targetDb tableName) (\<lambda>created.
          if \<not> created then io_return 0
          else insertTableData_p0 w targetDb tableName))
       (\<lambda>err.
          io_bind (console_log (TableError tableName (message err))) (\<lambda>_.
          io_return 0)))"

text \<open>Lines 124-134.\<close>

definition validate_p0 :: "string \<Rightarrow> string \<Rightarrow> unit io" where
  "validate_p0 file1 file2 =
     (\<lambda>s. if \<not> existsSync s file1 then (Inl (bad_request_error (file1 @ '' file missing'')), s)
          else if \<not> existsSync s file2 then
            (Inl (bad_request_error (file2 @ '' file missing'')), s)
          else (Inr (), s))"

text \<open>Lines 138-139: \<^verbatim>\<open>file.split('/').pop()?.replace(/\.gpkg$/i, '') || 'file1'\<close>\<close>

definition display_name :: "string \<Rightarrow> string \<Rightarrow> string" where
  "display_name filepath dflt =
     (if strip_gpkg_suffix (split_pop filepath) \<noteq> [] then strip_gpkg_suffix (split_pop filepath)
      else dflt)"

text \<open>Lines 144-152.\<close>

definition disambiguate_p0 :: "world \<Rightarrow> string \<Rightarrow> string" where
  "disambiguate_p0 w output =
     replace_first ''.gpkg'' (''_'' @ show_nat (now w) @ ''.gpkg'') output"

definition copy_base_p0 :: "world \<Rightarrow> string \<Rightarrow> string \<Rightarrow> string io" where
  "copy_base_p0 w file1 output =
     (\<lambda>s. if existsSync s output then
            io_bind (console_log (OutputExists (disambiguate_p0 w output))) (\<lambda>_.
            io_bind (copyFileSync w file1 (disambiguate_p0 w output)) (\<lambda>_.
            io_return (disambiguate_p0 w output))) s
          else
            io_bind (copyFileSync w file1 output) (\<lambda>_.
            io_return output) s)"

text \<open>Lines 165-175 (and \<^verbatim>\<open>part_002\<close> lines 49-59): the row count of every
  listed table is printed.\<close>

fun log_counts :: "world \<Rightarrow> string \<Rightarrow> string list \<Rightarrow> unit io" where
  "log_counts w h [] s = (Inr (), s)"
| "log_counts w h (t # ts) s =
     (case count_rows w h t s of
        (Inl err, s') \<Rightarrow> (Inl err, s')
      | (Inr c, s') \<Rightarrow> log_counts w h ts (emit (Console (TableRows t c)) s'))"

text \<open>Lines 180-184: the loop has no \<^verbatim>\<open>try\<close> of its own.\<close>

fun merge_tables_p0 :: "world \<Rightarrow> string \<Rightarrow> string \<Rightarrow> string list \<Rightarrow> nat \<Rightarrow> nat io" where
  "merge_tables_p0 w sourceDb targetDb [] totalMerged s = (Inr totalMerged, s)"
| "merge_tables_p0 w sourceDb targetDb (t # ts) totalMerged s =
     (case processTable_p0 w sourceDb targetDb t s of
        (Inl err, s') \<Rightarrow> (Inl err, s')
      | (Inr rowsAdded, s') \<Rightarrow>
          merge_tables_p0 w sourceDb targetDb ts (totalMerged + rowsAdded) s')"

text \<open>Lines 155-194: the part of the \<^verbatim>\<open>try\<close> block that works on the copy
  \<open>out\<close> of the base file.\<close>

definition merge_into_p0 :: "world \<Rightarrow> string \<Rightarrow> string \<Rightarrow> nat io" where
  "merge_into_p0 w file2 out =
     io_bind (open_database w out False) (\<lambda>targetDb.
     io_bind (open_database w file2 True) (\<lambda>sourceDb.
     io_bind (getDataTables w targetDb) (\<lambda>targetTables.
     io_bind (getDataTables w sourceDb) (\<lambda>sourceTables.
     io_bind (log_counts w targetDb targetTables) (\<lambda>_.
     io_bind (log_counts w sourceDb sourceTables) (\<lambda>_.
     io_bind (exec_attach w targetDb (attach_sql file2)) (\<lambda>_.
     io_bind (merge_tables_p0 w sourceDb targetDb sourceTables 0) (\<lambda>totalMerged.
     io_bind (exec_detach w targetDb) (\<lambda>_.
     io_bind (close_database w sourceDb) (\<lambda>_.
     io_bind (close_database w targetDb) (\<lambda>_.
     io_bind (statSync out) (\<lambda>_.
     io_bind (console_log (MergeComplete totalMerged out)) (\<lambda>_.
     io_return totalMerged)))))))))))))"

text \<open>Lines 124-195.\<close>

definition try_p0 :: "world \<Rightarrow> string \<Rightarrow> string \<Rightarrow> string \<Rightarrow> nat io" where
  "try_p0 w file1 file2 output =
     io_bind (validate_p0 file1 file2) (\<lambda>_.
     io_bind (statSync file1) (\<lambda>_.
     io_bind (statSync file2) (\<lambda>_.
     io_bind (console_log (DatasetSize (display_name file1 ''file1''))) (\<lambda>_.
     io_bind (console_log (DatasetSize (display_name file2 ''file2''))) (\<lambda>_.
     io_bind (copy_base_p0 w file1 output) (\<lambda>out.
     merge_into_p0 w file2 out))))))"

text \<open>Lines 18-28 and 196-200.\<close>

definition main_p0 :: "world \<Rightarrow> string list \<Rightarrow> state \<Rightarrow> run_result" where
  "main_p0 w args s0 =
     (let s = emit (Console Banner) s0
      in if length args < 2 then
           \<lparr>exit_code = 1, outcome = UsageExit, final = emit (Console Usage) s\<rparr>
         else
           (let file1 = args ! 0;
                file2 = args ! 1;
                output = createOutputFilename_p0 file1 file2 (optional_arg args 2)
            in case try_p0 w file1 file2 output s of
                 (Inl error, s') \<Rightarrow>
                   \<lparr>exit_code = (if status error = Some BAD_REQUEST then 1 else 2),
                    outcome = Aborted error,
                    final = emit (Console (Failed (message error))) s'\<rparr>
               | (Inr totalMerged, s') \<Rightarrow>
                   \<lparr>exit_code = 0, outcome = Completed totalMerged, final = s'\<rparr>))"

section \<open>The fixed-path scripts \<^verbatim>\<open>part_001\<close> and \<^verbatim>\<open>part_002\<close>\<close>

text \<open>Both scripts validate with plain errors and replace an existing output
  file (\<^verbatim>\<open>part_001\<close> lines 12-18, \<^verbatim>\<open>part_002\<close> lines 12-22).\<close>

definition validate_fixed :: "string \<Rightarrow> string \<Rightarrow> string \<Rightarrow> string \<Rightarrow> unit io" where
  "validate_fixed file1 msg1 file2 msg2 =
     (\<lambda>s. if \<not> existsSync s file1 then (Inl (plain_error msg1), s)
          else if \<not> existsSync s file2 then (Inl (plain_error msg2), s)
          else (Inr (), s))"

definition copy_base_fixed :: "world \<Rightarrow> string \<Rightarrow> string \<Rightarrow> unit io" where
  "copy_base_fixed w file1 output =
     (\<lambda>s. if existsSync s output then
            io_bind (unlinkSync w output) (\<lambda>_. copyFileSync w file1 output) s
          else copyFileSync w file1 output s)"

subsection \<open>\<^verbatim>\<open>part_001\<close>\<close>

definition file1_p1 :: string where
  "file1_p1 = ''./data/test_north.gpkg''"

definition file2_p1 :: string where
  "file2_p1 = ''./data/test_south.gpkg''"

definition output_p1 :: string where
  "output_p1 = ''./merged_complete.gpkg''"

text \<open>Lines 40-56: one turn of the loop; the \<^verbatim>\<open>try\<close> is inside the loop.\<close>

definition process_p1 :: "world \<Rightarrow> string \<Rightarrow> string \<Rightarrow> nat io" where
  "process_p1 w targetDb tableName =
     io_catch
       (io_bind (console_log (Processing tableName)) (\<lambda>_.
        io_bind (run_insert (insert_ignore_res w) targetDb tableName) (\<lambda>changes.
        io_bind (console_log (RowsAdded tableName changes)) (\<lambda>_.
        io_return changes))))
       (\<lambda>err.
          io_bind (console_log (TableError tableName (message err))) (\<lambda>_.
          io_return 0))"

fun merge_tables_p1 :: "world \<Rightarrow> string \<Rightarrow> string list \<Rightarrow> nat \<Rightarrow> nat io" where
  "merge_tables_p1 w targetDb [] totalMerged s = (Inr totalMerged, s)"
| "merge_tables_p1 w targetDb (t # ts) totalMerged s =
     (case process_p1 w targetDb t s of
        (Inl err, s') \<Rightarrow> (Inl err, s')
      | (Inr changes, s') \<Rightarrow> merge_tables_p1 w targetDb ts (totalMerged + changes) s')"

text \<open>Lines 21-63: the part of the \<^verbatim>\<open>try\<close> block behind the copy.\<close>

definition merge_into_p1 :: "world \<Rightarrow> nat io" where
  "merge_into_p1 w =
     io_bind (open_database w output_p1 False) (\<lambda>targetDb.
     io_bind (open_database w file2_p1 True) (\<lambda>sourceDb.
     io_bind (run_listing w tables_query_p1 sourceDb) (\<lambda>tables.
     io_bind (exec_attach w targetDb (attach_sql file2_p1)) (\<lambda>_.
     io_bind (merge_tables_p1 w targetDb tables 0) (\<lambda>totalMerged.
     io_bind (exec_detach w targetDb) (\<lambda>_.
     io_bind (close_database w sourceDb) (\<lambda>_.
     io_bind (close_database w targetDb) (\<lambda>_.
     io_bind (console_log (MergeComplete totalMerged output_p1)) (\<lambda>_.
     io_return totalMerged)))))))))"

text \<open>Lines 10-64.\<close>

definition try_p1 :: "world \<Rightarrow> nat io" where
  "try_p1 w =
     io_bind (validate_fixed file1_p1 ''File 1 missing'' file2_p1 ''File 2 missing'') (\<lambda>_.
     io_bind (copy_base_fixed w file1_p1 output_p1) (\<lambda>_.
     merge_into_p1 w))"

text \<open>Lines 65-67: the \<^verbatim>\<open>catch\<close> prints the message and sets no exit code, so
  the process ends with code 0.\<close>

definition main_p1 :: "world \<Rightarrow> state \<Rightarrow> run_result" where
  "main_p1 w s0 =
     (case try_p1 w (emit (Console Banner) s0) of
        (Inl error, s') \<Rightarrow>
          \<lparr>exit_code = 0, outcome = Aborted error,
           final = emit (Console (Failed (message error))) s'\<rparr>
      | (Inr totalMerged, s') \<Rightarrow>
          \<lparr>exit_code = 0, outcome = Completed totalMerged, final = s'\<rparr>)"

subsection \<open>\<^verbatim>\<open>part_002\<close>\<close>

definition file1_p2 :: string where
  "file1_p2 = ''./data/Syria.gpkg''"

definition file2_p2 :: string where
  "file2_p2 = ''./data/blueMarble.gpkg''"

definition output_p2 :: string where
  "output_p2 = ''./merged_syria_bluemarble.gpkg''"

text \<open>Lines 70-88: a missing create statement creates nothing and the insert
  is tried all the same.\<close>

definition ensure_table_p2 :: "world \<Rightarrow> string \<Rightarrow> string \<Rightarrow> string \<Rightarrow> unit io" where
  "ensure_table_p2 w sourceDb targetDb tableName =
     (\<lambda>s. if tableExists s targetDb tableName then (Inr (), s)
          else
            io_bind (console_log (CreatingTable tableName)) (\<lambda>_ s1.
              case create_statement s1 sourceDb tableName of
                Some sql \<Rightarrow>
                  io_bind (exec_create w targetDb sql) (\<lambda>_. console_log TableCreated) s1
              | None \<Rightarrow> (Inr (), s1)) s)"

text \<open>Lines 65-102.\<close>

definition process_p2 :: "world \<Rightarrow> string \<Rightarrow> string \<Rightarrow> string \<Rightarrow> nat io" where
  "process_p2 w sourceDb targetDb tableName =
     io_catch
       (io_bind (console_log (Processing tableName)) (\<lambda>_.
        io_bind (ensure_table_p2 w sourceDb targetDb tableName) (\<lambda>_.
        io_bind (run_insert (insert_res w) targetDb tableName) (\<lambda>changes.
        io_bind (console_log (RowsAdded tableName changes)) (\<lambda>_.
        io_return changes)))))
       (\<lambda>err.
          io_bind (console_log (TableError tableName (message err))) (\<lambda>_.
          io_return 0))"

fun merge_tables_p2 :: "world \<Rightarrow> string \<Rightarrow> string \<Rightarrow> string list \<Rightarrow> nat \<Rightarrow> nat io" where
  "merge_tables_p2 w sourceDb targetDb [] totalMerged s = (Inr totalMerged, s)"
| "merge_tables_p2 w sourceDb targetDb (t # ts) totalMerged s =
     (case process_p2 w sourceDb targetDb t s of
        (Inl err, s') \<Rightarrow> (Inl err, s')
      | (Inr changes, s') \<Rightarrow>
          merge_tables_p2 w sourceDb targetDb ts (totalMerged + changes) s')"

text \<open>Lines 25-112: the part of the \<^verbatim>\<open>try\<close> block behind the copy.\<close>

definition merge_into_p2 :: "world \<Rightarrow> nat io" where
  "merge_into_p2 w =
     io_bind (open_database w output_p2 False) (\<lambda>targetDb.
     io_bind (open_database w file2_p2 True) (\<lambda>sourceDb.
     io_bind (run_listing w data_tables_query targetDb) (\<lambda>targetTables.
     io_bind (run_listing w data_tables_query sourceDb) (\<lambda>sourceTables.
     io_bind (log_counts w targetDb targetTables) (\<lambda>_.
     io_bind (log_counts w sourceDb sourceTables) (\<lambda>_.
     io_bind (exec_attach w targetDb (attach_sql file2_p2)) (\<lambda>_.
     io_bind (merge_tables_p2 w sourceDb targetDb sourceTables 0) (\<lambda>totalMerged.
     io_bind (exec_detach w targetDb) (\<lambda>_.
     io_bind (close_database w sourceDb) (\<lambda>_.
     io_bind (close_database w targetDb) (\<lambda>_.
     io_bind (statSync output_p2) (\<lambda>_.
     io_bind (console_log (MergeComplete totalMerged output_p2)) (\<lambda>_.
     io_return totalMerged)))))))))))))"

text \<open>Lines 10-113.\<close>

definition try_p2 :: "world \<Rightarrow> nat io" where
  "try_p2 w =
     io_bind (validate_fixed file1_p2 ''Syria file missing''
                file2_p2 ''Blue Marble file missing'') (\<lambda>_.
     io_bind (statSync file1_p2) (\<lambda>_.
     io_bind (statSync file2_p2) (\<lambda>_.
     io_bind (console_log (DatasetSize ''Syria'')) (\<lambda>_.
     io_bind (console_log (DatasetSize ''Blue Marble'')) (\<lambda>_.
     io_bind (copy_base_fixed w file1_p2 output_p2) (\<lambda>_.
     merge_into_p2 w))))))"

text \<open>Lines 114-116.\<close>

definition main_p2 :: "world \<Rightarrow> state \<Rightarrow> run_result" where
  "main_p2 w s0 =
     (case try_p2 w (emit (Console Banner) s0) of
        (Inl error, s') \<Rightarrow>
          \<lparr>exit_code = 0, outcome = Aborted error,
           final = emit (Console (Failed (message error))) s'\<rparr>
      | (Inr totalMerged, s') \<Rightarrow>
          \<lparr>exit_code = 0, outcome = Completed totalMerged, final = s'\<rparr>)"

section \<open>Views of a run\<close>

text \<open>The events of a trace that acquire or release a resource, and the
  per-table errors it reports.\<close>

fun is_resource :: "event \<Rightarrow> bool" where
  "is_resource (DbOpen p ro) = True"
| "is_resource (SqlAttach sql) = True"
| "is_resource SqlDetach = True"
| "is_resource (DbClose p) = True"
| "is_resource ev = False"

definition resource_events :: "state \<Rightarrow> event list" where
  "resource_events s = filter is_resource (trace s)"

fun is_table_error :: "event \<Rightarrow> bool" where
  "is_table_error (Console (TableError t m)) = True"
| "is_table_error ev = False"

definition table_errors :: "state \<Rightarrow> event list" where
  "table_errors s = filter is_table_error (trace s)"

text \<open>The tables a run has started to process, in order.\<close>

fun processing_of :: "event \<Rightarrow> string option" where
  "processing_of (Console (Processing t)) = Some t"
| "processing_of ev = None"

definition processed :: "state \<Rightarrow> string list" where
  "processed s = List.map_filter processing_of (trace s)"

text \<open>The resource events of a run that got as far as the table loop, and those
  of the cleanup behind the loop.\<close>

definition acquired :: "string \<Rightarrow> string \<Rightarrow> event list" where
  "acquired file2 out = [DbOpen out False, DbOpen file2 True, SqlAttach (attach_sql file2)]"

definition released :: "string \<Rightarrow> string \<Rightarrow> event list" where
  "released file2 out = [SqlDetach, DbClose file2, DbClose out]"

text \<open>The path \<^verbatim>\<open>merge.ts\<close> writes to, given the path computed from the
  arguments.\<close>

definition output_path :: "world \<Rightarrow> state \<Rightarrow> string \<Rightarrow> string" where
  "output_path w s outputFilename =
     (if existsSync s outputFilename then disambiguate w outputFilename else outputFilename)"

text \<open>A statement is \<open>plain\<close> when no error it throws carries a status.\<close>

definition plain :: "'a io \<Rightarrow> bool" where
  "plain m = (\<forall>s. case fst (m s) of Inl e \<Rightarrow> status e = None | Inr x \<Rightarrow> True)"

text \<open>A statement is \<open>quiet\<close> when it emits no resource event and reports no
  per-table error.\<close>

definition quiet :: "'a io \<Rightarrow> bool" where
  "quiet m =
     (\<forall>s. resource_events (snd (m s)) = resource_events s
          \<and> table_errors (snd (m s)) = table_errors s)"

text \<open>A statement \<open>keeps\<close> the file \<open>p\<close> when it leaves it as it is.\<close>

definition keeps :: "string \<Rightarrow> 'a io \<Rightarrow> bool" where
  "keeps p m = (\<forall>s. files (snd (m s)) p = files s p)"

section \<open>Example worlds and datasets\<close>

text \<open>A world in which every call succeeds and every insert adds two rows, and
  one in which the insert into \<^verbatim>\<open>roads\<close> violates a unique constraint.\<close>

definition calm_world :: world where
  "calm_world =
     \<lparr>now = 17, copy_err = (\<lambda>src dst. None), unlink_err = (\<lambda>p. None),
      open_err = (\<lambda>p ro. None), query_err = (\<lambda>h. None), count_err = (\<lambda>h t. None),
      attach_err = (\<lambda>p. None), other_sql = (\<lambda>sql. Some ''syntax error''),
      create_err = (\<lambda>db sql. None), create_name = (\<lambda>sql. drop 13 sql),
      insert_res = (\<lambda>db t. Inr 2), insert_ignore_res = (\<lambda>db t. Inr 2),
      detach_err = None, close_err = (\<lambda>h. None)\<rparr>"

definition collision_world :: world where
  "collision_world =
     calm_world\<lparr>insert_res :=
       (\<lambda>db t. if t = ''roads'' then Inl ''UNIQUE constraint failed: roads.fid'' else Inr 2)\<rparr>"

definition table_entry :: "string \<Rightarrow> catalog_entry" where
  "table_entry n = \<lparr>ce_type = ''table'', ce_name = n, ce_sql = Some (''CREATE TABLE '' @ n)\<rparr>"

definition north_db :: database where
  "north_db = \<lparr>catalog = [table_entry ''gpkg_contents'', table_entry ''roads''],
               rowcount = (\<lambda>t. 3)\<rparr>"

definition south_db :: database where
  "south_db =
     \<lparr>catalog = [table_entry ''gpkg_contents'', table_entry ''lakes'', table_entry ''roads'',
                 table_entry ''rivers'', table_entry ''rtree_roads_geom_node''],
      rowcount = (\<lambda>t. 2)\<rparr>"

definition example_fs :: state where
  "example_fs = \<lparr>files = [''north.gpkg'' \<mapsto> north_db, ''south.gpkg'' \<mapsto> south_db], trace = []\<rparr>"

text \<open>A world whose engine refuses the detach statement, and a source dataset
  with a table that has no create statement.\<close>

definition stuck_world :: world where
  "stuck_world = calm_world\<lparr>detach_err := Some ''database source_db is locked''\<rparr>"

definition orphan_db :: database where
  "orphan_db =
     \<lparr>catalog = [\<lparr>ce_type = ''table'', ce_name = ''orphan'', ce_sql = None\<rparr>,
                 table_entry ''lakes''],
      rowcount = (\<lambda>t. 1)\<rparr>"

definition orphan_fs :: state where
  "orphan_fs = \<lparr>files = [''north.gpkg'' \<mapsto> north_db, ''odd.gpkg'' \<mapsto> orphan_db], trace = []\<rparr>"

text \<open>The example datasets with a file at the derived output path, left by an
  earlier run.\<close>

definition rerun_fs :: state where
  "rerun_fs =
     \<lparr>files = [''north.gpkg'' \<mapsto> north_db, ''south.gpkg'' \<mapsto> south_db,
               ''merged_north_south.gpkg'' \<mapsto> orphan_db],
      trace = []\<rparr>"

text \<open>The fixed paths of \<^verbatim>\<open>part_002\<close> with an output file left by an earlier run.\<close>

definition syria_fs :: state where
  "syria_fs =
     \<lparr>files = [file1_p2 \<mapsto> north_db, file2_p2 \<mapsto> south_db, output_p2 \<mapsto> orphan_db],
      trace = []\<rparr>"

text \<open>Two source paths with single quotes: \<^verbatim>\<open>it's.gpkg\<close>, and the same name with
  the quote doubled.\<close>

definition quoted_path :: string where
  "quoted_path = ''it'' @ [sq] @ ''s.gpkg''"

definition doubled_path :: string where
  "doubled_path = ''it'' @ [sq, sq] @ ''s.gpkg''"

definition quoted_fs :: state where
  "quoted_fs =
     \<lparr>files = [''north.gpkg'' \<mapsto> north_db, quoted_path \<mapsto> south_db,
               doubled_path \<mapsto> south_db],
      trace = []\<rparr>"

section \<open>Basic facts\<close>

subsection \<open>Sequencing\<close>

lemma io_bind_Inl [simp]: "m s = (Inl e, s') \<Longrightarrow> io_bind m f s = (Inl e, s')"
  by (simp add: io_bind_def)

lemma io_bind_Inr [simp]: "m s = (Inr x, s') \<Longrightarrow> io_bind m f s = f x s'"
  by (simp add: io_bind_def)

lemma io_bind_cases:
  assumes "io_bind m f s = (r, s')"
  obtains (throws) e where "m s = (Inl e, s')" "r = Inl e"
        | (returns) x s1 where "m s = (Inr x, s1)" "f x s1 = (r, s')"
  using assms by (auto simp: io_bind_def split: prod.splits sum.splits)

lemma files_emit [simp]: "files (emit ev s) = files s"
  by (simp add: emit_def)

lemma trace_emit [simp]: "trace (emit ev s) = trace s @ [ev]"
  by (simp add: emit_def)

lemma existsSync_emit [simp]: "existsSync (emit ev s) p = existsSync s p"
  by (simp add: existsSync_def)

lemma master_row_emit [simp]: "master_row (emit ev s) h t = master_row s h t"
  by (simp add: master_row_def)

lemma tableExists_emit [simp]: "tableExists (emit ev s) h t = tableExists s h t"
  by (simp add: tableExists_def)

lemma create_statement_emit [simp]: "create_statement (emit ev s) h t = create_statement s h t"
  by (simp add: create_statement_def)

subsection \<open>Plain errors\<close>

lemma plainI: "(\<And>s e s'. m s = (Inl e, s') \<Longrightarrow> status e = None) \<Longrightarrow> plain m"
  unfolding plain_def by (auto split: sum.splits simp: fst_def split: prod.splits)

lemma plainD: "plain m \<Longrightarrow> m s = (Inl e, s') \<Longrightarrow> status e = None"
  unfolding plain_def by (drule spec [of _ s]) simp

lemma plain_return [intro!, simp]: "plain (io_return x)"
  by (rule plainI) (simp add: io_return_def)

lemma plain_bind [intro!]: "plain m \<Longrightarrow> (\<And>x. plain (f x)) \<Longrightarrow> plain (io_bind m f)"
  by (rule plainI) (auto elim!: io_bind_cases dest: plainD)

lemma plain_catch [intro!]: "(\<And>e. plain (h e)) \<Longrightarrow> plain (io_catch m h)"
  by (rule plainI) (auto simp: io_catch_def split: prod.splits sum.splits dest: plainD)

lemma plain_if [intro!]: "plain a \<Longrightarrow> plain b \<Longrightarrow> plain (if c then a else b)"
  by simp

lemma status_plain_error [simp]: "status (plain_error m) = None"
  by (simp add: plain_error_def)

lemma message_plain_error [simp]: "message (plain_error m) = m"
  by (simp add: plain_error_def)

lemma plain_console_log [intro!, simp]: "plain (console_log l)"
  by (rule plainI) (simp add: console_log_def)

lemma plain_statSync [intro!, simp]: "plain (statSync p)"
  by (rule plainI) (auto simp: statSync_def split: if_splits)

lemma plain_copyFileSync [intro!, simp]: "plain (copyFileSync w src dst)"
  by (rule plainI) (auto simp: copyFileSync_def split: option.splits)

lemma plain_unlinkSync [intro!, simp]: "plain (unlinkSync w p)"
  by (rule plainI) (auto simp: unlinkSync_def split: option.splits)

lemma plain_open_database [intro!, simp]: "plain (open_database w p ro)"
  by (rule plainI) (auto simp: open_database_def split: option.splits if_splits)

lemma plain_close_database [intro!, simp]: "plain (close_database w h)"
  by (rule plainI) (auto simp: close_database_def split: option.splits)

lemma plain_run_listing [intro!, simp]: "plain (run_listing w q h)"
  by (rule plainI) (auto simp: run_listing_def split: option.splits)

lemma plain_exec_create [intro!, simp]: "plain (exec_create w h sql)"
  by (rule plainI) (auto simp: exec_create_def split: option.splits)

lemma plain_run_insert [intro!, simp]: "plain (run_insert res h t)"
  by (rule plainI) (auto simp: run_insert_def split: option.splits sum.splits)

lemma plain_count_rows [intro!, simp]: "plain (count_rows w h t)"
  by (rule plainI) (auto simp: count_rows_def split: option.splits)

lemma plain_exec_attach [intro!, simp]: "plain (exec_attach w h sql)"
  by (rule plainI) (auto simp: exec_attach_def split: option.splits if_splits)

lemma plain_exec_detach [intro!, simp]: "plain (exec_detach w h)"
  by (rule plainI) (auto simp: exec_detach_def split: option.splits)

lemma plain_logFileSizes [intro!, simp]: "plain (logFileSizes file1 file2)"
  unfolding logFileSizes_def by blast

lemma plain_getDataTables [intro!, simp]: "plain (getDataTables w h)"
  by (simp add: getDataTables_def)

lemma plain_createTableIfNotExists [intro!, simp]: "plain (createTableIfNotExists w src tgt t)"
  by (rule plainI)
     (auto simp: createTableIfNotExists_def console_log_def split: if_splits option.splits
           dest: plainD [OF plain_exec_create])

lemma plain_insertTableData [intro!, simp]: "plain (insertTableData w tgt t)"
  by (simp add: insertTableData_def)

lemma plain_processTable [intro!, simp]: "plain (processTable w src tgt t)"
  unfolding processTable_def by blast

lemma plain_copy_base [intro!, simp]: "plain (copy_base w file1 out)"
  by (rule plainI)
     (auto simp: copy_base_def console_log_def io_return_def split: if_splits
           elim!: io_bind_cases dest: plainD [OF plain_copyFileSync])

lemma merge_tables_plain:
  "merge_tables w src tgt ts acc s = (Inl e, s') \<Longrightarrow> status e = None"
proof (induction ts arbitrary: acc s)
  case Nil
  then show ?case by simp
next
  case (Cons t ts)
  then show ?case
    by (auto split: prod.splits sum.splits dest: plainD [OF plain_processTable])
qed

lemma plain_merge_tables [intro!, simp]: "plain (merge_tables w src tgt ts acc)"
  by (rule plainI) (rule merge_tables_plain)

lemma plain_merge_into [intro!, simp]: "plain (merge_into w file2 out)"
  unfolding merge_into_def by blast


subsection \<open>Quiet statements\<close>

lemma resource_events_emit [simp]:
  "resource_events (emit ev s) = resource_events s @ (if is_resource ev then [ev] else [])"
  by (simp add: resource_events_def)

lemma table_errors_emit [simp]:
  "table_errors (emit ev s) = table_errors s @ (if is_table_error ev then [ev] else [])"
  by (simp add: table_errors_def)

lemma resource_events_files [simp]: "resource_events (s\<lparr>files := f\<rparr>) = resource_events s"
  by (simp add: resource_events_def)

lemma table_errors_files [simp]: "table_errors (s\<lparr>files := f\<rparr>) = table_errors s"
  by (simp add: table_errors_def)

lemma quietI:
  assumes "\<And>s r s'. m s = (r, s') \<Longrightarrow>
             resource_events s' = resource_events s \<and> table_errors s' = table_errors s"
  shows "quiet m"
  unfolding quiet_def
proof
  fix s
  obtain r s' where "m s = (r, s')" by (cases "m s")
  with assms [OF this] show "resource_events (snd (m s)) = resource_events s
      \<and> table_errors (snd (m s)) = table_errors s"
    by simp
qed

lemma quiet_resource: "quiet m \<Longrightarrow> m s = (r, s') \<Longrightarrow> resource_events s' = resource_events s"
  unfolding quiet_def by (drule spec [of _ s]) simp

lemma quiet_table_errors: "quiet m \<Longrightarrow> m s = (r, s') \<Longrightarrow> table_errors s' = table_errors s"
  unfolding quiet_def by (drule spec [of _ s]) simp

lemma quiet_return [intro!, simp]: "quiet (io_return x)"
  by (rule quietI) (simp add: io_return_def)

lemma quiet_bind [intro!]:
  assumes "quiet m" "\<And>x. quiet (f x)"
  shows "quiet (io_bind m f)"
proof (rule quietI)
  fix s r s'
  assume "io_bind m f s = (r, s')"
  then show "resource_events s' = resource_events s \<and> table_errors s' = table_errors s"
  proof (cases rule: io_bind_cases)
    case (throws e)
    with assms(1) show ?thesis
      by (simp add: quiet_resource quiet_table_errors)
  next
    case (returns x s1)
    from assms(1) returns(1)
    have "resource_events s1 = resource_events s" "table_errors s1 = table_errors s"
      by (rule quiet_resource, rule quiet_table_errors)
    moreover from assms(2) returns(2)
    have "resource_events s' = resource_events s1" "table_errors s' = table_errors s1"
      by (rule quiet_resource, rule quiet_table_errors)
    ultimately show ?thesis by simp
  qed
qed

lemma quiet_catch [intro!]:
  assumes "quiet m" "\<And>e. quiet (h e)"
  shows "quiet (io_catch m h)"
proof (rule quietI)
  fix s r s'
  assume c: "io_catch m h s = (r, s')"
  obtain r1 s1 where m: "m s = (r1, s1)" by (cases "m s")
  from assms(1) m
  have 1: "resource_events s1 = resource_events s" "table_errors s1 = table_errors s"
    by (rule quiet_resource, rule quiet_table_errors)
  show "resource_events s' = resource_events s \<and> table_errors s' = table_errors s"
  proof (cases r1)
    case (Inl e)
    with c m have "h e s1 = (r, s')" by (simp add: io_catch_def)
    with assms(2) have "resource_events s' = resource_events s1" "table_errors s' = table_errors s1"
      by (auto dest: quiet_resource quiet_table_errors)
    with 1 show ?thesis by simp
  next
    case (Inr x)
    with c m 1 show ?thesis by (simp add: io_catch_def)
  qed
qed

lemma quiet_if [intro!]: "quiet a \<Longrightarrow> quiet b \<Longrightarrow> quiet (if c then a else b)"
  by simp

lemma quiet_console_log [intro!]: "\<not> is_table_error (Console l) \<Longrightarrow> quiet (console_log l)"
  by (rule quietI) (auto simp: console_log_def)

lemma quiet_statSync [intro!, simp]: "quiet (statSync p)"
  by (rule quietI) (auto simp: statSync_def split: if_splits)

lemma quiet_copyFileSync [intro!, simp]: "quiet (copyFileSync w src dst)"
  by (rule quietI) (auto simp: copyFileSync_def split: option.splits)

lemma quiet_unlinkSync [intro!, simp]: "quiet (unlinkSync w p)"
  by (rule quietI) (auto simp: unlinkSync_def split: option.splits)

lemma quiet_run_listing [intro!, simp]: "quiet (run_listing w q h)"
  by (rule quietI) (auto simp: run_listing_def split: option.splits)

lemma quiet_exec_create [intro!, simp]: "quiet (exec_create w h sql)"
  by (rule quietI) (auto simp: exec_create_def split: option.splits)

lemma quiet_run_insert [intro!, simp]: "quiet (run_insert res h t)"
  by (rule quietI) (auto simp: run_insert_def split: option.splits sum.splits)

lemma quiet_count_rows [intro!, simp]: "quiet (count_rows w h t)"
  by (rule quietI) (auto simp: count_rows_def split: option.splits)

lemma quiet_getDataTables [intro!, simp]: "quiet (getDataTables w h)"
  by (simp add: getDataTables_def)

lemma quiet_logFileSizes [intro!, simp]: "quiet (logFileSizes file1 file2)"
  unfolding logFileSizes_def by (intro quiet_bind quiet_console_log quiet_statSync quiet_return) simp_all

lemma quiet_validateFilesExist [intro!, simp]: "quiet (validateFilesExist file1 file2)"
  by (rule quietI) (auto simp: validateFilesExist_def Let_def split: if_splits)

lemma createTableIfNotExists_unfold:
  "createTableIfNotExists w src tgt t s =
     (if tableExists s tgt t then (Inr (), s)
      else case create_statement s src t of
             Some sql \<Rightarrow> exec_create w tgt sql (emit (Console (CreatingTable t)) s)
           | None \<Rightarrow> (Inl (plain_error (''Could not get table structure for '' @ t)),
                      emit (Console (CreatingTable t)) s))"
  by (simp add: createTableIfNotExists_def io_bind_def console_log_def)

lemma quiet_createTableIfNotExists [intro!, simp]: "quiet (createTableIfNotExists w src tgt t)"
proof (rule quietI)
  fix s r s'
  assume a: "createTableIfNotExists w src tgt t s = (r, s')"
  show "resource_events s' = resource_events s \<and> table_errors s' = table_errors s"
  proof (cases "tableExists s tgt t")
    case True
    with a show ?thesis by (simp add: createTableIfNotExists_unfold)
  next
    case False
    show ?thesis
    proof (cases "create_statement s src t")
      case None
      with a False show ?thesis by (auto simp: createTableIfNotExists_unfold)
    next
      case (Some sql)
      with a False have "exec_create w tgt sql (emit (Console (CreatingTable t)) s) = (r, s')"
        by (simp add: createTableIfNotExists_unfold)
      from quiet_resource [OF quiet_exec_create this] quiet_table_errors [OF quiet_exec_create this]
      show ?thesis by simp
    qed
  qed
qed

lemma quiet_insertTableData [intro!, simp]: "quiet (insertTableData w tgt t)"
  by (simp add: insertTableData_def)

lemma quiet_processTable [intro!, simp]: "quiet (processTable w src tgt t)"
  unfolding processTable_def by blast

lemma copy_base_unfold:
  "copy_base w file1 out s =
     (if existsSync s out then
        io_bind (copyFileSync w file1 (disambiguate w out)) (\<lambda>_.
          io_return (disambiguate w out)) (emit (Console (OutputExists (disambiguate w out))) s)
      else io_bind (copyFileSync w file1 out) (\<lambda>_. io_return out) s)"
  by (simp add: copy_base_def io_bind_def console_log_def)

lemma quiet_copy_base [intro!, simp]: "quiet (copy_base w file1 out)"
proof (rule quietI)
  fix s r s'
  assume a: "copy_base w file1 out s = (r, s')"
  have q: "\<And>d. quiet (io_bind (copyFileSync w file1 d) (\<lambda>_. io_return d))"
    by blast
  show "resource_events s' = resource_events s \<and> table_errors s' = table_errors s"
    using a quiet_resource [OF q] quiet_table_errors [OF q]
    by (fastforce simp: copy_base_unfold split: if_splits)
qed

lemma processTable_resource:
  "processTable w src tgt t s = (r, s') \<Longrightarrow> resource_events s' = resource_events s"
  by (rule quiet_resource [OF quiet_processTable])

lemma processTable_table_errors:
  "processTable w src tgt t s = (r, s') \<Longrightarrow> table_errors s' = table_errors s"
  by (rule quiet_table_errors [OF quiet_processTable])

lemma merge_tables_resource:
  "merge_tables w src tgt ts acc s = (r, s') \<Longrightarrow> resource_events s' = resource_events s"
proof (induction ts arbitrary: acc s)
  case Nil
  then show ?case by simp
next
  case (Cons t ts)
  then show ?case
    by (auto split: prod.splits sum.splits dest: processTable_resource)
qed

lemma merge_tables_ok_table_errors:
  "merge_tables w src tgt ts acc s = (Inr n, s') \<Longrightarrow> table_errors s' = table_errors s"
proof (induction ts arbitrary: acc s)
  case Nil
  then show ?case by simp
next
  case (Cons t ts)
  then show ?case
    by (auto split: prod.splits sum.splits dest: processTable_table_errors)
qed

lemma merge_tables_failed_table_errors:
  "merge_tables w src tgt ts acc s = (Inl e, s') \<Longrightarrow>
     \<exists>t. t \<in> set ts \<and> table_errors s' = table_errors s @ [Console (TableError t (message e))]"
proof (induction ts arbitrary: acc s)
  case Nil
  then show ?case by simp
next
  case (Cons t ts)
  show ?case
  proof (cases "processTable w src tgt t s")
    case (Pair r s1)
    show ?thesis
    proof (cases r)
      case (Inl e1)
      with Pair Cons.prems show ?thesis
        by (auto dest: processTable_table_errors)
    next
      case (Inr n)
      with Pair Cons.prems have "merge_tables w src tgt ts (acc + n) s1 = (Inl e, s')"
        by simp
      from Cons.IH [OF this] Pair show ?thesis
        by (auto dest: processTable_table_errors)
    qed
  qed
qed

subsection \<open>The resource calls\<close>

lemma quiet_both:
  "quiet m \<Longrightarrow> m s = (r, s') \<Longrightarrow>
     resource_events s' = resource_events s \<and> table_errors s' = table_errors s"
  by (simp add: quiet_resource quiet_table_errors)

lemma open_database_ok:
  "open_database w p ro s = (Inr h, s') \<Longrightarrow>
     h = p \<and> resource_events s' = resource_events s @ [DbOpen p ro]
     \<and> table_errors s' = table_errors s"
  by (auto simp: open_database_def split: option.splits if_splits)

lemma open_database_failed: "open_database w p ro s = (Inl e, s') \<Longrightarrow> s' = s"
  by (auto simp: open_database_def split: option.splits if_splits)

lemma exec_attach_ok: "exec_attach w h sql s = (Inr x, s') \<Longrightarrow> s' = emit (SqlAttach sql) s"
  by (auto simp: exec_attach_def split: option.splits if_splits)

lemma exec_attach_failed: "exec_attach w h sql s = (Inl e, s') \<Longrightarrow> s' = s"
  by (auto simp: exec_attach_def split: option.splits if_splits)

lemma exec_detach_ok: "exec_detach w h s = (Inr x, s') \<Longrightarrow> s' = emit SqlDetach s"
  by (auto simp: exec_detach_def split: option.splits)

lemma exec_detach_failed: "exec_detach w h s = (Inl e, s') \<Longrightarrow> s' = s"
  by (auto simp: exec_detach_def split: option.splits)

lemma close_database_ok: "close_database w h s = (Inr x, s') \<Longrightarrow> s' = emit (DbClose h) s"
  by (auto simp: close_database_def split: option.splits)

lemma close_database_failed: "close_database w h s = (Inl e, s') \<Longrightarrow> s' = s"
  by (auto simp: close_database_def split: option.splits)

lemma console_log_eq [simp]:
  "console_log l s = (r, s') \<longleftrightarrow> r = Inr () \<and> s' = emit (Console l) s"
  by (auto simp: console_log_def)

lemma io_return_eq [simp]: "io_return x s = (r, s') \<longleftrightarrow> r = Inr x \<and> s' = s"
  by (auto simp: io_return_def)

subsection \<open>The table loop\<close>

lemma merge_tables_ok:
  "merge_tables w src tgt ts acc s = (Inr n, s') \<Longrightarrow>
     resource_events s' = resource_events s \<and> table_errors s' = table_errors s"
  by (simp add: merge_tables_resource merge_tables_ok_table_errors)

lemma merge_tables_failed:
  "merge_tables w src tgt ts acc s = (Inl e, s') \<Longrightarrow>
     resource_events s' = resource_events s
     \<and> (\<exists>t. t \<in> set ts \<and> table_errors s' = table_errors s @ [Console (TableError t (message e))])"
  by (simp add: merge_tables_resource merge_tables_failed_table_errors)

subsection \<open>Files a statement leaves alone\<close>

lemma keepsI: "(\<And>s r s'. m s = (r, s') \<Longrightarrow> files s' p = files s p) \<Longrightarrow> keeps p m"
  unfolding keeps_def by (metis prod.collapse)

lemma keepsD: "keeps p m \<Longrightarrow> m s = (r, s') \<Longrightarrow> files s' p = files s p"
  unfolding keeps_def by (drule spec [of _ s]) simp

lemma keeps_return [intro!, simp]: "keeps p (io_return x)"
  by (rule keepsI) simp

lemma keeps_bind [intro!]:
  assumes "keeps p m" "\<And>x. keeps p (f x)"
  shows "keeps p (io_bind m f)"
proof (rule keepsI)
  fix s r s'
  assume "io_bind m f s = (r, s')"
  then show "files s' p = files s p"
  proof (cases rule: io_bind_cases)
    case (throws e)
    with assms(1) show ?thesis by (simp add: keepsD)
  next
    case (returns x s1)
    from keepsD [OF assms(1) returns(1)] keepsD [OF assms(2) returns(2)]
    show ?thesis by simp
  qed
qed

lemma keeps_catch [intro!]:
  assumes "keeps p m" "\<And>e. keeps p (h e)"
  shows "keeps p (io_catch m h)"
proof (rule keepsI)
  fix s r s'
  assume c: "io_catch m h s = (r, s')"
  obtain r1 s1 where m: "m s = (r1, s1)" by (cases "m s")
  from keepsD [OF assms(1) m] have 1: "files s1 p = files s p" .
  show "files s' p = files s p"
  proof (cases r1)
    case (Inl e)
    with c m have "h e s1 = (r, s')" by (simp add: io_catch_def)
    from keepsD [OF assms(2) this] 1 show ?thesis by simp
  next
    case (Inr x)
    with c m 1 show ?thesis by (simp add: io_catch_def)
  qed
qed

lemma keeps_if [intro!]: "keeps p a \<Longrightarrow> keeps p b \<Longrightarrow> keeps p (if c then a else b)"
  by simp

lemma keeps_console_log [intro!, simp]: "keeps p (console_log l)"
  by (rule keepsI) auto

lemma keeps_statSync [intro!, simp]: "keeps p (statSync q)"
  by (rule keepsI) (auto simp: statSync_def split: if_splits)

lemma keeps_copyFileSync [intro!]: "dst \<noteq> p \<Longrightarrow> keeps p (copyFileSync w src dst)"
  by (rule keepsI) (auto simp: copyFileSync_def split: option.splits)

lemma keeps_unlinkSync [intro!]: "q \<noteq> p \<Longrightarrow> keeps p (unlinkSync w q)"
  by (rule keepsI) (auto simp: unlinkSync_def split: option.splits)

lemma keeps_open_database [intro!]: "q \<noteq> p \<or> ro \<Longrightarrow> keeps p (open_database w q ro)"
  by (rule keepsI) (auto simp: open_database_def split: option.splits if_splits)

lemma keeps_close_database [intro!, simp]: "keeps p (close_database w h)"
  by (rule keepsI) (auto simp: close_database_def split: option.splits)

lemma keeps_run_listing [intro!, simp]: "keeps p (run_listing w q h)"
  by (rule keepsI) (auto simp: run_listing_def split: option.splits)

lemma keeps_exec_create [intro!]: "h \<noteq> p \<Longrightarrow> keeps p (exec_create w h sql)"
  by (rule keepsI) (auto simp: exec_create_def split: option.splits)

lemma keeps_run_insert [intro!]: "h \<noteq> p \<Longrightarrow> keeps p (run_insert res h t)"
  by (rule keepsI) (auto simp: run_insert_def split: option.splits sum.splits)

lemma keeps_count_rows [intro!, simp]: "keeps p (count_rows w h t)"
  by (rule keepsI) (auto simp: count_rows_def split: option.splits)

lemma keeps_exec_attach [intro!, simp]: "keeps p (exec_attach w h sql)"
  by (rule keepsI) (auto simp: exec_attach_def split: option.splits if_splits)

lemma keeps_exec_detach [intro!, simp]: "keeps p (exec_detach w h)"
  by (rule keepsI) (auto simp: exec_detach_def split: option.splits)

lemma keeps_getDataTables [intro!, simp]: "keeps p (getDataTables w h)"
  by (simp add: getDataTables_def)

lemma keeps_logFileSizes [intro!, simp]: "keeps p (logFileSizes file1 file2)"
  unfolding logFileSizes_def by blast

lemma validateFilesExist_state: "validateFilesExist file1 file2 s = (r, s') \<Longrightarrow> s' = s"
  by (auto simp: validateFilesExist_def Let_def split: if_splits)

lemma keeps_createTableIfNotExists [intro!]:
  assumes "tgt \<noteq> p"
  shows "keeps p (createTableIfNotExists w src tgt t)"
proof (rule keepsI)
  fix s r s'
  assume a: "createTableIfNotExists w src tgt t s = (r, s')"
  show "files s' p = files s p"
  proof (cases "create_statement s src t")
    case None
    with a show ?thesis by (auto simp: createTableIfNotExists_unfold split: if_splits)
  next
    case (Some sql)
    from assms have k: "keeps p (exec_create w tgt sql)" by blast
    from a Some keepsD [OF k] show ?thesis
      by (fastforce simp: createTableIfNotExists_unfold split: if_splits)
  qed
qed

lemma keeps_processTable [intro!]: "tgt \<noteq> p \<Longrightarrow> keeps p (processTable w src tgt t)"
  unfolding processTable_def insertTableData_def by blast

lemma merge_tables_keeps:
  "tgt \<noteq> p \<Longrightarrow> merge_tables w src tgt ts acc s = (r, s') \<Longrightarrow> files s' p = files s p"
proof (induction ts arbitrary: acc s)
  case Nil
  then show ?case by simp
next
  case (Cons t ts)
  then show ?case
    by (auto split: prod.splits sum.splits dest: keepsD [OF keeps_processTable])
qed

lemma keeps_merge_tables [intro!]: "tgt \<noteq> p \<Longrightarrow> keeps p (merge_tables w src tgt ts acc)"
  by (rule keepsI) (rule merge_tables_keeps)

lemma open_database_handle: "open_database w q ro s = (Inr h, s') \<Longrightarrow> h = q"
  by (auto simp: open_database_def split: option.splits if_splits)

lemma keeps_bind_open:
  assumes "q \<noteq> p \<or> ro" "keeps p (f q)"
  shows "keeps p (io_bind (open_database w q ro) f)"
proof (rule keepsI)
  fix s r s'
  assume "io_bind (open_database w q ro) f s = (r, s')"
  then show "files s' p = files s p"
  proof (cases rule: io_bind_cases)
    case (throws e)
    then show ?thesis by (auto dest: open_database_failed)
  next
    case (returns x s1)
    from returns(1) have "x = q" by (rule open_database_handle)
    with keepsD [OF keeps_open_database [OF assms(1)] returns(1)] keepsD [OF assms(2)] returns(2)
    show ?thesis by simp
  qed
qed

lemma keeps_merge_into:
  assumes "out \<noteq> p"
  shows "keeps p (merge_into w file2 out)"
  unfolding merge_into_def
  apply (rule keeps_bind_open, simp add: assms)
  apply (rule keeps_bind_open, simp)
  using assms by (intro keeps_bind keeps_merge_tables) simp_all


lemma copyFileSync_ok:
  "copyFileSync w src dst s = (Inr x, s') \<Longrightarrow>
     \<exists>d. files s src = Some d \<and> s' = emit (FsCopy src dst) (s\<lparr>files := (files s)(dst \<mapsto> d)\<rparr>)"
  by (auto simp: copyFileSync_def split: option.splits)

lemma copyFileSync_failed: "copyFileSync w src dst s = (Inl e, s') \<Longrightarrow> s' = s"
  by (auto simp: copyFileSync_def split: option.splits)

lemma copy_to_cases:
  assumes "io_bind (copyFileSync w src dst) (\<lambda>_. io_return dst) s = (r, s')"
  obtains (failed) e where "r = Inl e" "s' = s"
        | (copied) d where "r = Inr dst" "files s src = Some d"
            "s' = emit (FsCopy src dst) (s\<lparr>files := (files s)(dst \<mapsto> d)\<rparr>)"
  using assms
proof (cases rule: io_bind_cases)
  case (throws e)
  then show ?thesis using failed by (auto dest: copyFileSync_failed)
next
  case (returns x s1)
  then show ?thesis using copied by (auto dest: copyFileSync_ok)
qed

lemma copy_base_ok:
  assumes "copy_base w file1 o1 s = (Inr out, s')"
  shows "out = output_path w s o1 \<and> files s' out \<noteq> None
       \<and> (\<forall>p. p \<noteq> out \<longrightarrow> files s' p = files s p)
       \<and> resource_events s' = resource_events s \<and> table_errors s' = table_errors s"
proof (cases "existsSync s o1")
  case True
  with assms have "io_bind (copyFileSync w file1 (disambiguate w o1)) (\<lambda>_. io_return (disambiguate w o1))
      (emit (Console (OutputExists (disambiguate w o1))) s) = (Inr out, s')"
    by (simp add: copy_base_unfold)
  then show ?thesis
    using True by (cases rule: copy_to_cases) (auto simp: output_path_def)
next
  case False
  with assms have "io_bind (copyFileSync w file1 o1) (\<lambda>_. io_return o1) s = (Inr out, s')"
    by (simp add: copy_base_unfold)
  then show ?thesis
    using False by (cases rule: copy_to_cases) (auto simp: output_path_def)
qed

lemma copy_base_failed:
  assumes "copy_base w file1 o1 s = (Inl e, s')"
  shows "files s' = files s \<and> resource_events s' = resource_events s
       \<and> table_errors s' = table_errors s"
proof (cases "existsSync s o1")
  case True
  with assms have "io_bind (copyFileSync w file1 (disambiguate w o1)) (\<lambda>_. io_return (disambiguate w o1))
      (emit (Console (OutputExists (disambiguate w o1))) s) = (Inl e, s')"
    by (simp add: copy_base_unfold)
  then show ?thesis
    by (cases rule: copy_to_cases) auto
next
  case False
  with assms have "io_bind (copyFileSync w file1 o1) (\<lambda>_. io_return o1) s = (Inl e, s')"
    by (simp add: copy_base_unfold)
  then show ?thesis
    by (cases rule: copy_to_cases) auto
qed

lemma logFileSizes_files: "logFileSizes file1 file2 s = (r, s') \<Longrightarrow> files s' = files s"
  by (rule ext) (rule keepsD [OF keeps_logFileSizes])

lemma output_path_cong: "files s' = files s \<Longrightarrow> output_path w s' o1 = output_path w s o1"
  by (simp add: output_path_def existsSync_def)

subsection \<open>The merge on the copy\<close>

lemma statSync_ok: "statSync p s = (Inr x, s') \<Longrightarrow> s' = s \<and> files s p \<noteq> None"
  by (auto simp: statSync_def existsSync_def split: if_splits)

lemma statSync_failed: "statSync p s = (Inl e, s') \<Longrightarrow> s' = s"
  by (auto simp: statSync_def split: if_splits)

lemmas merge_into_steps =
  open_database_ok exec_attach_ok exec_detach_ok close_database_ok
  open_database_failed exec_attach_failed exec_detach_failed close_database_failed
  merge_tables_ok merge_tables_failed statSync_ok statSync_failed
  quiet_both [OF quiet_getDataTables]

lemma merge_into_ok:
  assumes "merge_into w file2 out s = (Inr n, s')"
  shows "resource_events s' = resource_events s @ acquired file2 out @ released file2 out
       \<and> table_errors s' = table_errors s \<and> files s' out \<noteq> None"
  using assms unfolding merge_into_def acquired_def released_def
  by (elim io_bind_cases; clarsimp)
     (auto dest!: merge_into_steps)

lemma merge_into_failed:
  assumes "merge_into w file2 out s = (Inl e, s')"
  shows "prefix (resource_events s') (resource_events s @ acquired file2 out @ released file2 out)
       \<and> (table_errors s' = table_errors s
          \<or> (\<exists>t. table_errors s' = table_errors s @ [Console (TableError t (message e))])
             \<and> resource_events s' = resource_events s @ acquired file2 out)"
  using assms unfolding merge_into_def acquired_def released_def
  by (elim io_bind_cases; clarsimp)
     (auto dest!: merge_into_steps)


lemma merge_try_cases:
  assumes "merge_try w file1 file2 o1 s = (r, s')"
  obtains (invalid) e where "validateFilesExist file1 file2 s = (Inl e, s)" "r = Inl e" "s' = s"
    | (nostat) e where "logFileSizes file1 file2 s = (Inl e, s')" "r = Inl e"
    | (nocopy) e names s2 where "logFileSizes file1 file2 s = (Inr names, s2)"
        "copy_base w file1 o1 s2 = (Inl e, s')" "r = Inl e"
    | (copied) names s2 out s3 where "logFileSizes file1 file2 s = (Inr names, s2)"
        "copy_base w file1 o1 s2 = (Inr out, s3)" "merge_into w file2 out s3 = (r, s')"
proof -
  from assms have b: "io_bind (validateFilesExist file1 file2) (\<lambda>_.
     io_bind (logFileSizes file1 file2) (\<lambda>names.
     io_bind (copy_base w file1 o1) (\<lambda>out.
     merge_into w file2 out))) s = (r, s')"
    by (simp add: merge_try_def)
  from b show ?thesis
  proof (cases rule: io_bind_cases)
    case (throws e)
    with validateFilesExist_state [OF throws(1)] invalid show ?thesis by simp
  next
    case v: (returns x s1)
    from validateFilesExist_state [OF v(1)] have s1: "s1 = s" .
    from v(2) show ?thesis
    proof (cases rule: io_bind_cases)
      case (throws e)
      with s1 nostat show ?thesis by simp
    next
      case l: (returns names s2)
      from l(2) show ?thesis
      proof (cases rule: io_bind_cases)
        case (throws e)
        with l(1) s1 nocopy show ?thesis by simp
      next
        case (returns out s3)
        with l(1) s1 copied show ?thesis by simp
      qed
    qed
  qed
qed

lemma merge_try_ok:
  assumes "merge_try w file1 file2 o1 s = (Inr n, s')"
  shows "resource_events s' =
           resource_events s @ acquired file2 (output_path w s o1) @ released file2 (output_path w s o1)
       \<and> table_errors s' = table_errors s
       \<and> files s' (output_path w s o1) \<noteq> None"
  using assms
proof (cases rule: merge_try_cases)
  case (copied names s2 out s3)
  from copied(1) have f2: "files s2 = files s" by (simp add: logFileSizes_files)
  from quiet_both [OF quiet_logFileSizes copied(1)]
  have q2: "resource_events s2 = resource_events s" "table_errors s2 = table_errors s"
    by simp_all
  from copy_base_ok [OF copied(2)] output_path_cong [OF f2, of w o1]
  have out: "out = output_path w s o1"
    by simp
  from copy_base_ok [OF copied(2)] q2
  have q3: "resource_events s3 = resource_events s" "table_errors s3 = table_errors s"
    by simp_all
  from merge_into_ok [OF copied(3)] q3 out show ?thesis by simp
qed simp_all

lemma merge_try_failed:
  assumes "merge_try w file1 file2 o1 s = (Inl e, s')"
  shows "prefix (resource_events s')
           (resource_events s @ acquired file2 (output_path w s o1) @ released file2 (output_path w s o1))
       \<and> (table_errors s' = table_errors s
          \<or> (\<exists>t. table_errors s' = table_errors s @ [Console (TableError t (message e))])
             \<and> resource_events s' = resource_events s @ acquired file2 (output_path w s o1)
             \<and> status e = None)"
  using assms
proof (cases rule: merge_try_cases)
  case (invalid e1)
  then show ?thesis by simp
next
  case (nostat e1)
  from quiet_both [OF quiet_logFileSizes nostat(1)] show ?thesis by simp
next
  case (nocopy e1 names s2)
  from quiet_both [OF quiet_logFileSizes nocopy(1)] copy_base_failed [OF nocopy(2)]
  show ?thesis by simp
next
  case (copied names s2 out s3)
  from copied(1) have f2: "files s2 = files s" by (simp add: logFileSizes_files)
  from quiet_both [OF quiet_logFileSizes copied(1)]
  have q2: "resource_events s2 = resource_events s" "table_errors s2 = table_errors s"
    by simp_all
  from copy_base_ok [OF copied(2)] output_path_cong [OF f2, of w o1]
  have out: "out = output_path w s o1"
    by simp
  from copy_base_ok [OF copied(2)] q2
  have q3: "resource_events s3 = resource_events s" "table_errors s3 = table_errors s"
    by simp_all
  from plainD [OF plain_merge_into copied(3)] have "status e = None" .
  with merge_into_failed [OF copied(3)] q3 out show ?thesis by auto
qed

section \<open>Command-line arguments and input validation\<close>

lemma validateFilesExist_missing:
  assumes "files s file1 = None \<or> files s file2 = None"
  shows "\<exists>m. validateFilesExist file1 file2 s = (Inl (bad_request_error m), s)"
  using assms by (auto simp: validateFilesExist_def existsSync_def Let_def)

lemma validateFilesExist_present:
  assumes "files s file1 \<noteq> None" "files s file2 \<noteq> None"
  shows "validateFilesExist file1 file2 s = (Inr (), s)"
  using assms by (simp add: validateFilesExist_def existsSync_def)

text \<open>
  Claim C9. With fewer than two command-line arguments \<^verbatim>\<open>merge.ts\<close> (and the
  earlier variant \<^verbatim>\<open>part_000\<close>) prints the banner and the usage text and
  ends with exit code 1; the file system is not touched and nothing else is
  done.
\<close>

theorem C9_usage_exit:
  assumes "length args < 2"
  shows "exit_code (merge_ts w args s0) = 1
       \<and> outcome (merge_ts w args s0) = UsageExit
       \<and> files (final (merge_ts w args s0)) = files s0
       \<and> trace (final (merge_ts w args s0)) = trace s0 @ [Console Banner, Console Usage]
       \<and> exit_code (main_p0 w args s0) = 1
       \<and> outcome (main_p0 w args s0) = UsageExit
       \<and> files (final (main_p0 w args s0)) = files s0
       \<and> trace (final (main_p0 w args s0)) = trace s0 @ [Console Banner, Console Usage]"
  using assms by (simp add: merge_ts_def main_p0_def)

theorem C9_usage_exit_witness:
  "length [''north.gpkg''] < 2
   \<and> exit_code (merge_ts calm_world [''north.gpkg''] example_fs) = 1
   \<and> files (final (merge_ts calm_world [''north.gpkg''] example_fs)) = files example_fs
   \<and> trace (final (merge_ts calm_world [''north.gpkg''] example_fs))
       = [Console Banner, Console Usage]
   \<and> exit_code (main_p0 calm_world [''north.gpkg''] example_fs) = 1"
  using C9_usage_exit [of "[''north.gpkg'']" calm_world example_fs]
  by (simp add: example_fs_def)

lemma merge_ts_missing:
  assumes "2 \<le> length args"
    and "files s0 (args ! 0) = None \<or> files s0 (args ! 1) = None"
  shows "exit_code (merge_ts w args s0) = 1
       \<and> files (final (merge_ts w args s0)) = files s0
       \<and> (\<exists>m. outcome (merge_ts w args s0) = Aborted (bad_request_error m)
             \<and> trace (final (merge_ts w args s0))
                 = trace s0 @ [Console Banner, Console (Failed m)])"
proof -
  let ?s = "emit (Console Banner) s0"
  let ?out = "createOutputFilename (args ! 0) (args ! 1) (optional_arg args 2)"
  from assms(2) have "files ?s (args ! 0) = None \<or> files ?s (args ! 1) = None"
    by simp
  then obtain m where
    v: "validateFilesExist (args ! 0) (args ! 1) ?s = (Inl (bad_request_error m), ?s)"
    using validateFilesExist_missing by blast
  have t: "merge_try w (args ! 0) (args ! 1) ?out ?s = (Inl (bad_request_error m), ?s)"
    unfolding merge_try_def using v by simp
  show ?thesis
    using assms(1) t by (simp add: merge_ts_def Let_def bad_request_error_def)
qed

text \<open>
  Claim C6. When the first or the second input file does not exist, \<^verbatim>\<open>merge.ts\<close>
  ends with exit code 1 and leaves the file system as it was: the validation
  comes before the copy of the base file, and nothing but the banner and the
  failure message is emitted.
\<close>

theorem C6_missing_input:
  assumes "2 \<le> length args"
    and "files s0 (args ! 0) = None \<or> files s0 (args ! 1) = None"
  shows "exit_code (merge_ts w args s0) = 1
       \<and> files (final (merge_ts w args s0)) = files s0
       \<and> (\<exists>m. outcome (merge_ts w args s0) = Aborted (bad_request_error m)
             \<and> trace (final (merge_ts w args s0))
                 = trace s0 @ [Console Banner, Console (Failed m)])"
  using assms by (rule merge_ts_missing)

theorem C6_missing_input_witness:
  "2 \<le> length [''north.gpkg'', ''nowhere.gpkg'']
   \<and> (files example_fs ([''north.gpkg'', ''nowhere.gpkg''] ! 0) = None
      \<or> files example_fs ([''north.gpkg'', ''nowhere.gpkg''] ! 1) = None)
   \<and> exit_code (merge_ts calm_world [''north.gpkg'', ''nowhere.gpkg''] example_fs) = 1
   \<and> files (final (merge_ts calm_world [''north.gpkg'', ''nowhere.gpkg''] example_fs))
       = files example_fs"
  using C6_missing_input [of "[''north.gpkg'', ''nowhere.gpkg'']" example_fs calm_world]
  by (simp add: example_fs_def)

lemma replace_first_final:
  "CHR ''.'' \<notin> set stem \<Longrightarrow> replace_first (CHR ''.'' # e) [] (stem @ CHR ''.'' # e) = stem"
proof (induction stem)
  case Nil
  then show ?case by (simp add: replace_first.simps)
next
  case (Cons c cs)
  then show ?case by (subst replace_first.simps) simp
qed

lemma path_basename_file:
  assumes "CHR ''/'' \<notin> set name" "name \<noteq> []" "dir = [] \<or> last dir = CHR ''/''"
  shows "path_basename (dir @ name) = name"
proof -
  from assms(1,2) have "\<not> (hd (rev name) = CHR ''/'')"
    by (metis hd_rev last_in_set)
  with assms(2) have d: "dropWhile (\<lambda>c. c = CHR ''/'') (rev name @ rev dir) = rev name @ rev dir"
    by (cases "rev name") auto
  from assms(3) have t: "takeWhile (\<lambda>c. c \<noteq> CHR ''/'') (rev dir) = []"
    by (cases dir rule: rev_cases) auto
  from assms(1) have "takeWhile (\<lambda>c. c \<noteq> CHR ''/'') (rev name @ rev dir)
      = rev name @ takeWhile (\<lambda>c. c \<noteq> CHR ''/'') (rev dir)"
    by (intro takeWhile_append2) auto
  with d t show ?thesis by (simp add: path_basename_def)
qed

lemma path_extname_gpkg:
  assumes "CHR ''/'' \<notin> set stem" "stem \<noteq> []"
  shows "path_extname (stem @ ''.gpkg'') = ''.gpkg''"
proof -
  from assms(1) have "path_basename ([] @ (stem @ ''.gpkg'')) = stem @ ''.gpkg''"
    by (intro path_basename_file) auto
  then have b: "path_basename (stem @ ''.gpkg'') = stem @ ''.gpkg''" by simp
  have "stem @ ''.gpkg'' \<noteq> ''..''"
  proof
    assume "stem @ ''.gpkg'' = ''..''"
    then have "length (stem @ ''.gpkg'') = length ''..''" by (rule arg_cong)
    then show False by simp
  qed
  with assms(2) show ?thesis
    by (simp add: path_extname_def b Let_def)
qed

text \<open>On a path whose file name is a stem without dot followed by \<^verbatim>\<open>.gpkg\<close>,
  \<^verbatim>\<open>getName\<close> returns the stem.\<close>

lemma getName_regular:
  assumes "CHR ''/'' \<notin> set stem" "CHR ''.'' \<notin> set stem" "stem \<noteq> []"
    "dir = [] \<or> last dir = CHR ''/''"
  shows "getName (dir @ stem @ ''.gpkg'') = stem"
proof -
  from assms(1) have "CHR ''/'' \<notin> set (stem @ ''.gpkg'')" by simp
  then have b: "path_basename (dir @ stem @ ''.gpkg'') = stem @ ''.gpkg''"
    using assms(4) by (intro path_basename_file) auto
  from assms have e: "path_extname (stem @ ''.gpkg'') = ''.gpkg''"
    by (intro path_extname_gpkg)
  from assms(2) have "replace_first ''.gpkg'' [] (stem @ ''.gpkg'') = stem"
    by (rule replace_first_final)
  with b e show ?thesis by (simp add: getName_def)
qed

lemma createOutputFilename_regular:
  assumes "CHR ''/'' \<notin> set stem1" "CHR ''.'' \<notin> set stem1" "stem1 \<noteq> []"
    "dir1 = [] \<or> last dir1 = CHR ''/''"
    "CHR ''/'' \<notin> set stem2" "CHR ''.'' \<notin> set stem2" "stem2 \<noteq> []"
    "dir2 = [] \<or> last dir2 = CHR ''/''"
  shows "createOutputFilename (dir1 @ stem1 @ ''.gpkg'') (dir2 @ stem2 @ ''.gpkg'') None
           = ''merged_'' @ stem1 @ ''_'' @ stem2 @ ''.gpkg''"
  using getName_regular [OF assms(1-4)] getName_regular [OF assms(5-8)]
  by (simp add: createOutputFilename_def)

lemma createOutputFilename_custom:
  "c \<noteq> [] \<Longrightarrow> createOutputFilename file1 file2 (Some c) = c"
  by (simp add: createOutputFilename_def)

section \<open>The reserved-namespace filter\<close>

lemma sql_like_percent [simp]: "sql_like ''%'' t"
  by (induction t) simp_all

lemma sql_like_prefix_sqlite: "prefix ''sqlite_'' n \<Longrightarrow> sql_like ''sqlite_%'' n"
  by (auto simp: prefix_def)

lemma sql_like_prefix_gpkg: "prefix ''gpkg_'' n \<Longrightarrow> sql_like ''gpkg_%'' n"
  by (auto simp: prefix_def)

lemma sql_like_prefix_rtree: "prefix ''rtree_'' n \<Longrightarrow> sql_like ''rtree_%'' n"
  by (auto simp: prefix_def)

text \<open>The listing of \<^verbatim>\<open>merge.ts\<close>, \<^verbatim>\<open>part_000\<close> and \<^verbatim>\<open>part_002\<close> returns no name
  with a reserved prefix.\<close>

lemma data_tables_query_unreserved:
  assumes "n \<in> set (data_tables_query db)"
  shows "\<not> prefix ''sqlite_'' n \<and> \<not> prefix ''gpkg_'' n \<and> \<not> prefix ''rtree_'' n"
  using assms
  by (auto simp: data_tables_query_def
           dest: sql_like_prefix_sqlite sql_like_prefix_gpkg sql_like_prefix_rtree)

text \<open>
  Claim C7. The listing of \<^verbatim>\<open>part_001\<close> has no exclusion for the prefix
  \<^verbatim>\<open>rtree_\<close>: on a catalog with a spatial-index shadow table it returns that
  table as one to merge, where the listing of the other scripts leaves it out.
\<close>

theorem C7_part_001_lists_rtree:
  "tables_query_p1 south_db = [''lakes'', ''roads'', ''rivers'', ''rtree_roads_geom_node'']
   \<and> data_tables_query south_db = [''lakes'', ''roads'', ''rivers'']"
  by (simp add: tables_query_p1_def data_tables_query_def south_db_def table_entry_def
        ascii_lower_def)

section \<open>The derived output name\<close>

text \<open>
  Claim C8. \<^verbatim>\<open>getName\<close> of \<^verbatim>\<open>merge.ts\<close> removes the first occurrence of the
  extension text in the base name, not the extension at its end: for a file
  name that holds its extension twice the derived output name keeps the
  extension and loses the inner text. The variant \<^verbatim>\<open>part_000\<close> strips the
  final extension.
\<close>

theorem C8_first_occurrence_removed:
  "getName ''data/my.gpkg.backup.gpkg'' = ''my.backup.gpkg''
   \<and> createOutputFilename ''data/my.gpkg.backup.gpkg'' ''south.gpkg'' None
       = ''merged_my.backup.gpkg_south.gpkg''
   \<and> getName_p0 ''data/my.gpkg.backup.gpkg'' = ''my.gpkg.backup''"
  by (simp add: getName_def createOutputFilename_def path_basename_def path_extname_def
        replace_first.simps getName_p0_def split_pop_def strip_gpkg_suffix_def ascii_lower_def)

section \<open>Exit codes\<close>

lemma status_bad_request_error [simp]: "status (bad_request_error m) = Some BAD_REQUEST"
  by (simp add: bad_request_error_def)

lemma merge_try_missing:
  assumes "\<not> (existsSync s file1 \<and> existsSync s file2)"
  shows "\<exists>m. merge_try w file1 file2 o1 s = (Inl (bad_request_error m), s)"
proof -
  from assms have "files s file1 = None \<or> files s file2 = None"
    by (auto simp: existsSync_def)
  then obtain m where "validateFilesExist file1 file2 s = (Inl (bad_request_error m), s)"
    using validateFilesExist_missing by blast
  then have "merge_try w file1 file2 o1 s = (Inl (bad_request_error m), s)"
    unfolding merge_try_def by simp
  then show ?thesis ..
qed

lemma merge_try_present_plain:
  assumes "existsSync s file1" "existsSync s file2"
    and "merge_try w file1 file2 o1 s = (Inl e, s')"
  shows "status e = None"
  using assms(3)
proof (cases rule: merge_try_cases)
  case (invalid e1)
  with assms(1,2) show ?thesis
    by (simp add: validateFilesExist_present existsSync_def)
next
  case (nostat e1)
  with plainD [OF plain_logFileSizes] show ?thesis by auto
next
  case (nocopy e1 names s2)
  with plainD [OF plain_copy_base] show ?thesis by auto
next
  case (copied names s2 out s3)
  with plainD [OF plain_merge_into] show ?thesis by auto
qed

lemma merge_ts_exit_code:
  "exit_code (merge_ts w args s0) =
     (case outcome (merge_ts w args s0) of
        Completed n \<Rightarrow> 0
      | UsageExit \<Rightarrow> 1
      | Aborted e \<Rightarrow> if existsSync s0 (args ! 0) \<and> existsSync s0 (args ! 1) then 2 else 1)"
proof (cases "length args < 2")
  case True
  then show ?thesis by (simp add: merge_ts_def)
next
  case False
  let ?s = "emit (Console Banner) s0"
  let ?o = "createOutputFilename (args ! 0) (args ! 1) (optional_arg args 2)"
  obtain r s' where t: "merge_try w (args ! 0) (args ! 1) ?o ?s = (r, s')"
    by (cases "merge_try w (args ! 0) (args ! 1) ?o ?s")
  show ?thesis
  proof (cases r)
    case (Inr n)
    with False t show ?thesis by (simp add: merge_ts_def Let_def)
  next
    case (Inl e)
    show ?thesis
    proof (cases "existsSync s0 (args ! 0) \<and> existsSync s0 (args ! 1)")
      case True
      with t Inl have "status e = None"
        using merge_try_present_plain [of ?s "args ! 0" "args ! 1" w ?o e s'] by simp
      with False t Inl True show ?thesis by (simp add: merge_ts_def Let_def)
    next
      case absent: False
      then have "\<not> (existsSync ?s (args ! 0) \<and> existsSync ?s (args ! 1))" by simp
      from merge_try_missing [OF this, of w ?o] t Inl
      obtain m where "e = bad_request_error m" by auto
      with False t Inl absent show ?thesis by (simp add: merge_ts_def Let_def)
    qed
  qed
qed

lemma main_p1_missing:
  assumes "\<not> existsSync s0 file1_p1"
  shows "outcome (main_p1 w s0) = Aborted (plain_error ''File 1 missing'')"
proof -
  from assms have "validate_fixed file1_p1 ''File 1 missing'' file2_p1 ''File 2 missing''
      (emit (Console Banner) s0) = (Inl (plain_error ''File 1 missing''), emit (Console Banner) s0)"
    by (simp add: validate_fixed_def)
  then have "try_p1 w (emit (Console Banner) s0)
      = (Inl (plain_error ''File 1 missing''), emit (Console Banner) s0)"
    unfolding try_p1_def by simp
  then show ?thesis by (simp add: main_p1_def)
qed

text \<open>
  Claim C5, as the code has it. In \<^verbatim>\<open>merge.ts\<close> a run ends with exit code 0
  exactly when it completes, with 1 when an input file is missing (and when
  fewer than two arguments are given), and with 2 on every other failure. The
  fixed-path script \<^verbatim>\<open>part_001\<close> sets no exit code: its runs end with code 0,
  also when an input file is missing.
\<close>

theorem C5_exit_codes:
  "exit_code (merge_ts w args s0) =
     (case outcome (merge_ts w args s0) of
        Completed n \<Rightarrow> 0
      | UsageExit \<Rightarrow> 1
      | Aborted e \<Rightarrow> if existsSync s0 (args ! 0) \<and> existsSync s0 (args ! 1) then 2 else 1)
   \<and> (if length args < 2 then outcome (merge_ts w args s0) = UsageExit
      else if existsSync s0 (args ! 0) \<and> existsSync s0 (args ! 1)
        then outcome (merge_ts w args s0) \<noteq> UsageExit
        else exit_code (merge_ts w args s0) = 1)
   \<and> exit_code (main_p1 w s0) = 0
   \<and> (if existsSync s0 file1_p1 then True
      else outcome (main_p1 w s0) = Aborted (plain_error ''File 1 missing''))"
proof -
  have 2: "if length args < 2 then outcome (merge_ts w args s0) = UsageExit
      else if existsSync s0 (args ! 0) \<and> existsSync s0 (args ! 1)
        then outcome (merge_ts w args s0) \<noteq> UsageExit
        else exit_code (merge_ts w args s0) = 1"
  proof (cases "length args < 2")
    case True
    then show ?thesis by (simp add: merge_ts_def)
  next
    case False
    show ?thesis
    proof (cases "existsSync s0 (args ! 0) \<and> existsSync s0 (args ! 1)")
      case True
      with False show ?thesis
        by (simp add: merge_ts_def Let_def split: prod.splits sum.splits)
    next
      case absent: False
      then have "files s0 (args ! 0) = None \<or> files s0 (args ! 1) = None"
        by (auto simp: existsSync_def)
      with False absent merge_ts_missing [of args s0 w] show ?thesis by auto
    qed
  qed
  have 3: "exit_code (main_p1 w s0) = 0"
    by (simp add: main_p1_def split: prod.splits sum.splits)
  from merge_ts_exit_code 2 3 main_p1_missing show ?thesis by simp
qed


theorem C5_exit_codes_witness:
  "exit_code (merge_ts calm_world [''north.gpkg'', ''nowhere.gpkg''] example_fs) = 1
   \<and> exit_code (merge_ts calm_world [''north.gpkg''] example_fs) = 1
   \<and> exit_code (main_p1 calm_world example_fs) = 0
   \<and> outcome (main_p1 calm_world example_fs) = Aborted (plain_error ''File 1 missing'')"
  using C5_exit_codes [of calm_world "[''north.gpkg'', ''nowhere.gpkg'']" example_fs]
    C5_exit_codes [of calm_world "[''north.gpkg'']" example_fs]
  by (simp add: existsSync_def example_fs_def file1_p1_def)

text \<open>Claim C5 as stated fails on \<^verbatim>\<open>part_001\<close>: with its first input file
  missing the run is a failure and the exit code is 0, not 1.\<close>

theorem C5_counterexample:
  "\<not> existsSync example_fs file1_p1
   \<and> outcome (main_p1 calm_world example_fs) = Aborted (plain_error ''File 1 missing'')
   \<and> exit_code (main_p1 calm_world example_fs) = 0
   \<and> exit_code (main_p1 calm_world example_fs) \<noteq> 1"
  by (simp add: main_p1_def try_p1_def validate_fixed_def existsSync_def example_fs_def
        file1_p1_def)

section \<open>The variant \<^verbatim>\<open>part_000\<close>: errors stay inside \<^verbatim>\<open>processTable\<close>\<close>

lemma processed_emit [simp]:
  "processed (emit ev s) = processed s @ (case processing_of ev of Some t \<Rightarrow> [t] | None \<Rightarrow> [])"
  by (simp add: processed_def List.map_filter_def split: option.splits)

lemma processed_files [simp]: "processed (s\<lparr>files := f\<rparr>) = processed s"
  by (simp add: processed_def)

lemma run_insert_ok:
  "run_insert res h t s = (Inr n, s') \<Longrightarrow>
     \<exists>db. files s h = Some db \<and> res db t = Inr n
        \<and> s' = emit (SqlInsert t n)
             (s\<lparr>files := (files s)(h \<mapsto> db\<lparr>rowcount := (rowcount db)(t := rowcount db t + n)\<rparr>)\<rparr>)"
  by (auto simp: run_insert_def split: option.splits sum.splits)

lemma run_insert_failed: "run_insert res h t s = (Inl e, s') \<Longrightarrow> s' = s"
  by (auto simp: run_insert_def split: option.splits sum.splits)

lemma run_insert_rejected:
  "files s h = Some db \<Longrightarrow> res db t = Inl m \<Longrightarrow> run_insert res h t s = (Inl (plain_error m), s)"
  by (simp add: run_insert_def)

lemma exec_create_ok:
  "exec_create w h sql s = (Inr x, s') \<Longrightarrow> processed s' = processed s"
  by (auto simp: exec_create_def split: option.splits)

lemma exec_create_failed: "exec_create w h sql s = (Inl e, s') \<Longrightarrow> s' = s"
  by (auto simp: exec_create_def split: option.splits)

lemma createTableIfNotExists_p0_unfold:
  "createTableIfNotExists_p0 w src tgt t s =
     (if tableExists s tgt t then (Inr True, s)
      else case create_statement s src t of
             Some sql \<Rightarrow>
               io_bind (exec_create w tgt sql) (\<lambda>_.
               io_bind (console_log TableCreated) (\<lambda>_. io_return True))
                 (emit (Console (CreatingTable t)) s)
           | None \<Rightarrow>
               (Inr False, emit (Console (TableSkipped t)) (emit (Console (CreatingTable t)) s)))"
  by (simp add: createTableIfNotExists_p0_def io_bind_def console_log_def io_return_def
        split: option.splits)

lemma quiet_createTableIfNotExists_p0 [intro!, simp]:
  "quiet (createTableIfNotExists_p0 w src tgt t)"
proof (rule quietI)
  fix s r s'
  assume a: "createTableIfNotExists_p0 w src tgt t s = (r, s')"
  have q: "\<And>sql. quiet (io_bind (exec_create w tgt sql) (\<lambda>_.
               io_bind (console_log TableCreated) (\<lambda>_. io_return True)))"
    by (intro quiet_bind quiet_exec_create quiet_console_log quiet_return) simp
  show "resource_events s' = resource_events s \<and> table_errors s' = table_errors s"
    using a quiet_both [OF q]
    by (fastforce simp: createTableIfNotExists_p0_unfold split: if_splits option.splits)
qed

lemma createTableIfNotExists_p0_processed:
  assumes "createTableIfNotExists_p0 w src tgt t s = (r, s')"
  shows "processed s' = processed s \<and> resource_events s' = resource_events s"
proof -
  from assms have "processed s' = processed s"
    by (auto simp: createTableIfNotExists_p0_unfold split: if_splits option.splits
             elim!: io_bind_cases dest!: exec_create_ok exec_create_failed)
  with quiet_resource [OF quiet_createTableIfNotExists_p0 assms] show ?thesis by simp
qed

lemma insertTableData_p0_processed:
  assumes "insertTableData_p0 w tgt t s = (r, s')"
  shows "processed s' = processed s \<and> resource_events s' = resource_events s"
  using assms unfolding insertTableData_p0_def
  by (auto elim!: io_bind_cases dest!: run_insert_ok run_insert_failed)

text \<open>\<^verbatim>\<open>processTable\<close> of \<^verbatim>\<open>part_000\<close> returns a number in every state.\<close>

lemma processTable_p0_returns:
  "\<exists>n s'. processTable_p0 w src tgt t s = (Inr n, s')
      \<and> processed s' = processed s @ [t] \<and> resource_events s' = resource_events s"
proof -
  let ?s1 = "emit (Console (Processing t)) s"
  let ?body = "io_bind (createTableIfNotExists_p0 w src tgt t) (\<lambda>created.
          if \<not> created then io_return 0 else insertTableData_p0 w tgt t)"
  obtain r s2 where b: "?body ?s1 = (r, s2)" by (cases "?body ?s1")
  have p2: "processed s2 = processed s @ [t] \<and> resource_events s2 = resource_events s"
    using b
    by (auto elim!: io_bind_cases split: if_splits
             dest!: createTableIfNotExists_p0_processed insertTableData_p0_processed)
  show ?thesis
  proof (cases r)
    case (Inl e)
    with b p2 show ?thesis
      by (simp add: processTable_p0_def io_bind_def io_catch_def console_log_def io_return_def)
  next
    case (Inr n)
    with b p2 show ?thesis
      by (simp add: processTable_p0_def io_bind_def io_catch_def console_log_def io_return_def)
  qed
qed

lemma merge_tables_p0_returns:
  "\<exists>n s'. merge_tables_p0 w src tgt ts acc s = (Inr n, s')
      \<and> processed s' = processed s @ ts \<and> resource_events s' = resource_events s"
proof (induction ts arbitrary: acc s)
  case Nil
  then show ?case by simp
next
  case (Cons t ts)
  from processTable_p0_returns [of w src tgt t s] obtain n s1 where
    1: "processTable_p0 w src tgt t s = (Inr n, s1)" "processed s1 = processed s @ [t]"
       "resource_events s1 = resource_events s"
    by blast
  from Cons.IH [of "acc + n" s1] obtain m s2 where
    2: "merge_tables_p0 w src tgt ts (acc + n) s1 = (Inr m, s2)"
       "processed s2 = processed s1 @ ts" "resource_events s2 = resource_events s1"
    by blast
  from 1 2 show ?case by simp
qed

section \<open>Runs of \<^verbatim>\<open>merge.ts\<close>\<close>

lemma output_path_emit [simp]: "output_path w (emit ev s) o1 = output_path w s o1"
  by (simp add: output_path_def)

text \<open>A completed run has acquired and released its resources and reported
  no per-table error; its output file exists.\<close>

lemma merge_ts_completed:
  assumes "exit_code (merge_ts w args s0) = 0"
  shows "resource_events (final (merge_ts w args s0)) =
           resource_events s0
           @ acquired (args ! 1)
               (output_path w s0 (createOutputFilename (args ! 0) (args ! 1) (optional_arg args 2)))
           @ released (args ! 1)
               (output_path w s0 (createOutputFilename (args ! 0) (args ! 1) (optional_arg args 2)))
       \<and> table_errors (final (merge_ts w args s0)) = table_errors s0
       \<and> files (final (merge_ts w args s0))
            (output_path w s0 (createOutputFilename (args ! 0) (args ! 1) (optional_arg args 2)))
          \<noteq> None"
proof -
  let ?s = "emit (Console Banner) s0"
  let ?o = "createOutputFilename (args ! 0) (args ! 1) (optional_arg args 2)"
  from assms have len: "\<not> length args < 2"
    by (auto simp: merge_ts_def)
  obtain r s' where t: "merge_try w (args ! 0) (args ! 1) ?o ?s = (r, s')"
    by (cases "merge_try w (args ! 0) (args ! 1) ?o ?s")
  from assms len t obtain n where r: "r = Inr n"
    by (cases r) (auto simp: merge_ts_def Let_def split: if_splits)
  from len t r have f: "final (merge_ts w args s0) = s'"
    by (simp add: merge_ts_def Let_def)
  from merge_try_ok [OF t [unfolded r]] f show ?thesis by simp
qed

text \<open>A run that reported a per-table error was aborted by that error, with exit
  code 2, right after the acquisition of its resources.\<close>

lemma merge_ts_reported:
  assumes "table_errors (final (merge_ts w args s0)) \<noteq> table_errors s0"
  shows "exit_code (merge_ts w args s0) = 2
       \<and> (\<exists>e t. outcome (merge_ts w args s0) = Aborted e \<and> status e = None
             \<and> table_errors (final (merge_ts w args s0))
                 = table_errors s0 @ [Console (TableError t (message e))])
       \<and> resource_events (final (merge_ts w args s0)) =
           resource_events s0
           @ acquired (args ! 1)
               (output_path w s0 (createOutputFilename (args ! 0) (args ! 1) (optional_arg args 2)))"
proof -
  let ?s = "emit (Console Banner) s0"
  let ?o = "createOutputFilename (args ! 0) (args ! 1) (optional_arg args 2)"
  from assms have len: "\<not> length args < 2"
    by (auto simp: merge_ts_def)
  obtain r s' where t: "merge_try w (args ! 0) (args ! 1) ?o ?s = (r, s')"
    by (cases "merge_try w (args ! 0) (args ! 1) ?o ?s")
  show ?thesis
  proof (cases r)
    case (Inr n)
    with len t have "final (merge_ts w args s0) = s'"
      by (simp add: merge_ts_def Let_def)
    with merge_try_ok [OF t [unfolded Inr]] assms show ?thesis by simp
  next
    case (Inl e)
    with len t have f: "final (merge_ts w args s0) = emit (Console (Failed (message e))) s'"
      and o: "outcome (merge_ts w args s0) = Aborted e"
      and x: "exit_code (merge_ts w args s0) = (if status e = Some BAD_REQUEST then 1 else 2)"
      by (simp_all add: merge_ts_def Let_def)
    from merge_try_failed [OF t [unfolded Inl]] assms f
    obtain tn where "table_errors s' = table_errors s0 @ [Console (TableError tn (message e))]"
      "resource_events s' = resource_events s0 @ acquired (args ! 1) (output_path w s0 ?o)"
      "status e = None"
      by auto
    with f o x show ?thesis by auto
  qed
qed

lemma processTable_rejected:
  assumes "files s tgt = Some db" "tableExists s tgt t" "insert_res w db t = Inl m"
  shows "processTable w src tgt t s = (Inl (plain_error m), s)"
  using assms
  by (simp add: processTable_def createTableIfNotExists_unfold insertTableData_def
        run_insert_rejected)

lemma processTable_p0_rejected:
  assumes "files s tgt = Some db" "tableExists s tgt t" "insert_res w db t = Inl m"
  shows "processTable_p0 w src tgt t s =
           (Inr 0, emit (Console (TableError t m)) (emit (Console (Processing t)) s))"
proof -
  let ?s1 = "emit (Console (Processing t)) s"
  from assms have "run_insert (insert_res w) tgt t ?s1 = (Inl (plain_error m), ?s1)"
    by (intro run_insert_rejected) simp_all
  then have "insertTableData_p0 w tgt t ?s1 = (Inl (plain_error m), ?s1)"
    by (simp add: insertTableData_p0_def)
  with assms(2) show ?thesis
    by (simp add: processTable_p0_def io_bind_def io_catch_def console_log_def io_return_def
          createTableIfNotExists_p0_unfold)
qed

lemma createTableIfNotExists_absent:
  assumes "\<not> tableExists s tgt t" "create_statement s src t = None"
  shows "createTableIfNotExists w src tgt t s =
           (Inl (plain_error (''Could not get table structure for '' @ t)),
            emit (Console (CreatingTable t)) s)"
  using assms by (simp add: createTableIfNotExists_unfold)

lemma createTableIfNotExists_p0_absent:
  assumes "\<not> tableExists s tgt t" "create_statement s src t = None"
  shows "createTableIfNotExists_p0 w src tgt t s =
           (Inr False, emit (Console (TableSkipped t)) (emit (Console (CreatingTable t)) s))"
  using assms by (simp add: createTableIfNotExists_p0_unfold)

lemma processTable_p0_absent:
  assumes "\<not> tableExists s tgt t" "create_statement s src t = None"
  shows "processTable_p0 w src tgt t s =
           (Inr 0, emit (Console (TableSkipped t)) (emit (Console (CreatingTable t))
                     (emit (Console (Processing t)) s)))"
proof -
  let ?s1 = "emit (Console (Processing t)) s"
  from assms have "createTableIfNotExists_p0 w src tgt t ?s1 =
      (Inr False, emit (Console (TableSkipped t)) (emit (Console (CreatingTable t)) ?s1))"
    by (intro createTableIfNotExists_p0_absent) simp_all
  then show ?thesis
    by (simp add: processTable_p0_def io_bind_def io_catch_def console_log_def io_return_def)
qed

section \<open>Runs of \<^verbatim>\<open>part_000\<close>\<close>

lemma log_counts_quiet:
  "log_counts w h ts s = (r, s') \<Longrightarrow>
     resource_events s' = resource_events s \<and> table_errors s' = table_errors s"
proof (induction ts arbitrary: s)
  case Nil
  then show ?case by simp
next
  case (Cons t ts)
  then show ?case
    by (fastforce split: prod.splits sum.splits dest: quiet_both [OF quiet_count_rows])
qed

lemma merge_tables_p0_ok:
  "merge_tables_p0 w src tgt ts acc s = (Inr n, s') \<Longrightarrow> resource_events s' = resource_events s"
  using merge_tables_p0_returns [of w src tgt ts acc s] by auto

lemma merge_tables_p0_never: "merge_tables_p0 w src tgt ts acc s = (Inl e, s') \<Longrightarrow> False"
  using merge_tables_p0_returns [of w src tgt ts acc s] by auto

lemma open_database_resource:
  "open_database w p ro s = (Inr h, s') \<Longrightarrow>
     h = p \<and> resource_events s' = resource_events s @ [DbOpen p ro]"
  by (auto simp: open_database_def split: option.splits if_splits)

lemma exec_detach_rejected:
  "exec_detach w h s = (Inl e, s') \<Longrightarrow> s' = s \<and> (\<exists>m. detach_err w = Some m \<and> e = plain_error m)"
  by (auto simp: exec_detach_def split: option.splits)

lemma getDataTables_resource:
  "getDataTables w h s = (r, s') \<Longrightarrow> resource_events s' = resource_events s"
  by (rule quiet_resource [OF quiet_getDataTables])

lemma log_counts_resource:
  "log_counts w h ts s = (r, s') \<Longrightarrow> resource_events s' = resource_events s"
  by (simp add: log_counts_quiet)

lemmas merge_into_p0_steps =
  open_database_resource exec_attach_ok exec_detach_ok close_database_ok
  open_database_failed exec_attach_failed exec_detach_rejected close_database_failed
  merge_tables_p0_ok merge_tables_p0_never statSync_ok statSync_failed
  getDataTables_resource log_counts_resource

lemma merge_into_p0_ok:
  assumes "merge_into_p0 w file2 out s = (Inr n, s')"
  shows "resource_events s' = resource_events s @ acquired file2 out @ released file2 out"
  using assms unfolding merge_into_p0_def acquired_def released_def
  by (elim io_bind_cases; clarsimp)
     (auto dest!: merge_into_p0_steps)

lemma merge_into_p0_failed:
  assumes "merge_into_p0 w file2 out s = (Inl e, s')"
  shows "prefix (resource_events s') (resource_events s @ acquired file2 out @ released file2 out)
       \<and> (resource_events s' \<noteq> resource_events s @ acquired file2 out
          \<or> (\<exists>m. detach_err w = Some m \<and> e = plain_error m))"
  using assms unfolding merge_into_p0_def acquired_def released_def
  by (elim io_bind_cases; clarsimp)
     (auto dest!: merge_into_p0_steps)


lemma validate_p0_state: "validate_p0 file1 file2 s = (r, s') \<Longrightarrow> s' = s"
  by (auto simp: validate_p0_def split: if_splits)

lemma copy_base_p0_unfold:
  "copy_base_p0 w file1 out s =
     (if existsSync s out then
        io_bind (copyFileSync w file1 (disambiguate_p0 w out)) (\<lambda>_.
          io_return (disambiguate_p0 w out)) (emit (Console (OutputExists (disambiguate_p0 w out))) s)
      else io_bind (copyFileSync w file1 out) (\<lambda>_. io_return out) s)"
  by (simp add: copy_base_p0_def io_bind_def console_log_def)

lemma copy_base_p0_resource:
  assumes "copy_base_p0 w file1 o1 s = (r, s')"
  shows "resource_events s' = resource_events s"
proof -
  have q: "\<And>d. quiet (io_bind (copyFileSync w file1 d) (\<lambda>_. io_return d))"
    by blast
  from assms quiet_resource [OF q] show ?thesis
    by (fastforce simp: copy_base_p0_unfold split: if_splits)
qed

lemma statSync_state: "statSync p s = (r, s') \<Longrightarrow> s' = s"
  by (auto simp: statSync_def split: if_splits)

lemma try_p0_split:
  assumes "try_p0 w file1 file2 o1 s = (r, s')"
  shows "(resource_events s' = resource_events s \<and> (\<exists>e. r = Inl e))
       \<or> (\<exists>out s3. resource_events s3 = resource_events s
             \<and> merge_into_p0 w file2 out s3 = (r, s'))"
  using assms unfolding try_p0_def
  by (elim io_bind_cases; clarsimp)
     (auto dest!: validate_p0_state statSync_state copy_base_p0_resource)

text \<open>A completed run of \<^verbatim>\<open>part_000\<close> has acquired and released its resources.\<close>

lemma main_p0_completed:
  assumes "exit_code (main_p0 w args s0) = 0"
  shows "\<exists>out. resource_events (final (main_p0 w args s0)) =
           resource_events s0 @ acquired (args ! 1) out @ released (args ! 1) out"
proof -
  let ?s = "emit (Console Banner) s0"
  let ?o = "createOutputFilename_p0 (args ! 0) (args ! 1) (optional_arg args 2)"
  from assms have len: "\<not> length args < 2"
    by (auto simp: main_p0_def)
  obtain r s' where t: "try_p0 w (args ! 0) (args ! 1) ?o ?s = (r, s')"
    by (cases "try_p0 w (args ! 0) (args ! 1) ?o ?s")
  from assms len t obtain n where r: "r = Inr n"
    by (cases r) (auto simp: main_p0_def Let_def split: if_splits)
  from len t r have f: "final (main_p0 w args s0) = s'"
    by (simp add: main_p0_def Let_def)
  from try_p0_split [OF t] r obtain out s3 where
    "resource_events s3 = resource_events ?s" "merge_into_p0 w (args ! 1) out s3 = (Inr n, s')"
    by auto
  with merge_into_p0_ok [of w "args ! 1" out s3 n s'] f show ?thesis by auto
qed

text \<open>A run of \<^verbatim>\<open>part_000\<close> ends with the source attached and both handles open
  only when the detach statement itself fails.\<close>

lemma main_p0_attached:
  assumes "resource_events (final (main_p0 w args s0)) = resource_events s0 @ acquired file2 out"
  shows "\<exists>m. detach_err w = Some m \<and> outcome (main_p0 w args s0) = Aborted (plain_error m)"
proof -
  let ?s = "emit (Console Banner) s0"
  let ?o = "createOutputFilename_p0 (args ! 0) (args ! 1) (optional_arg args 2)"
  from assms have len: "\<not> length args < 2"
    by (auto simp: main_p0_def acquired_def)
  obtain r s' where t: "try_p0 w (args ! 0) (args ! 1) ?o ?s = (r, s')"
    by (cases "try_p0 w (args ! 0) (args ! 1) ?o ?s")
  show ?thesis
  proof (cases r)
    case (Inr n)
    with len t have f: "final (main_p0 w args s0) = s'"
      by (simp add: main_p0_def Let_def)
    from try_p0_split [OF t] Inr obtain out' s3 where
      "resource_events s3 = resource_events ?s" "merge_into_p0 w (args ! 1) out' s3 = (Inr n, s')"
      by auto
    with merge_into_p0_ok [of w "args ! 1" out' s3 n s'] f assms show ?thesis
      by (auto simp: acquired_def released_def)
  next
    case (Inl e)
    with len t have f: "final (main_p0 w args s0) = emit (Console (Failed (message e))) s'"
      and o: "outcome (main_p0 w args s0) = Aborted e"
      by (simp_all add: main_p0_def Let_def)
    from try_p0_split [OF t] show ?thesis
    proof
      assume "resource_events s' = resource_events ?s \<and> (\<exists>e. r = Inl e)"
      with f assms show ?thesis by (simp add: acquired_def)
    next
      assume "\<exists>out s3. resource_events s3 = resource_events ?s
             \<and> merge_into_p0 w (args ! 1) out s3 = (r, s')"
      then obtain out' s3 where 3: "resource_events s3 = resource_events ?s"
        "merge_into_p0 w (args ! 1) out' s3 = (Inl e, s')"
        using Inl by auto
      from assms f 3(1) have a: "resource_events s' = resource_events s3 @ acquired file2 out"
        by simp
      from merge_into_p0_failed [OF 3(2)] a
      have "acquired file2 out = acquired (args ! 1) out' \<longrightarrow>
          (\<exists>m. detach_err w = Some m \<and> e = plain_error m)"
        by auto
      moreover from merge_into_p0_failed [OF 3(2)] a
      have "prefix (acquired file2 out) (acquired (args ! 1) out' @ released (args ! 1) out')"
        by simp
      then have "acquired file2 out = acquired (args ! 1) out'"
        by (auto simp: acquired_def released_def)
      ultimately show ?thesis using o by auto
    qed
  qed
qed

section \<open>Example runs\<close>

lemma example_names:
  "getName ''north.gpkg'' = ''north''" "getName ''south.gpkg'' = ''south''"
  "getName ''odd.gpkg'' = ''odd''"
  by (simp_all add: getName_def path_basename_def path_extname_def replace_first.simps)

lemma example_tables:
  "data_tables_query north_db = [''roads'']"
  "data_tables_query south_db = [''lakes'', ''roads'', ''rivers'']"
  "data_tables_query orphan_db = [''orphan'', ''lakes'']"
  by (simp_all add: data_tables_query_def north_db_def south_db_def orphan_db_def
        table_entry_def ascii_lower_def)

lemma example_attach:
  "\<not> sql_unterminated (attach_sql ''south.gpkg'')"
  "parse_attach (attach_sql ''south.gpkg'') = Some ''south.gpkg''"
  "\<not> sql_unterminated (attach_sql ''odd.gpkg'')"
  "parse_attach (attach_sql ''odd.gpkg'') = Some ''odd.gpkg''"
  by (simp_all add: sql_unterminated_def parse_attach_def attach_sql_def sq_def)

lemmas step_defs =
  merge_ts_def merge_try_def merge_into_def validateFilesExist_def logFileSizes_def
  copy_base_def copyFileSync_def statSync_def existsSync_def open_database_def
  close_database_def getDataTables_def run_listing_def exec_attach_def exec_detach_def
  processTable_def createTableIfNotExists_def insertTableData_def run_insert_def
  exec_create_def create_statement_def master_row_def tableExists_def
  io_bind_def io_return_def io_catch_def console_log_def emit_def optional_arg_def
  createOutputFilename_def plain_error_def bad_request_error_def BAD_REQUEST_def Let_def
  example_names example_tables example_attach

lemmas world_defs = calm_world_def collision_world_def stuck_world_def

lemmas fs_defs = example_fs_def orphan_fs_def

lemma catalogs [simp]:
  "catalog north_db = [table_entry ''gpkg_contents'', table_entry ''roads'']"
  "catalog south_db = [table_entry ''gpkg_contents'', table_entry ''lakes'', table_entry ''roads'',
                 table_entry ''rivers'', table_entry ''rtree_roads_geom_node'']"
  "catalog orphan_db = [\<lparr>ce_type = ''table'', ce_name = ''orphan'', ce_sql = None\<rparr>,
                 table_entry ''lakes'']"
  by (simp_all add: north_db_def south_db_def orphan_db_def)

lemma collision_run:
  "exit_code (merge_ts collision_world [''north.gpkg'', ''south.gpkg''] example_fs) = 2
   \<and> outcome (merge_ts collision_world [''north.gpkg'', ''south.gpkg''] example_fs)
       = Aborted (plain_error ''UNIQUE constraint failed: roads.fid'')
   \<and> trace (final (merge_ts collision_world [''north.gpkg'', ''south.gpkg''] example_fs))
       = [Console Banner, Console (DatasetSize ''north''), Console (DatasetSize ''south''),
          FsCopy ''north.gpkg'' ''merged_north_south.gpkg'',
          DbOpen ''merged_north_south.gpkg'' False, DbOpen ''south.gpkg'' True,
          Console Merging, SqlAttach (attach_sql ''south.gpkg''),
          Console (CreatingTable ''lakes''), SqlCreate ''CREATE TABLE lakes'',
          SqlInsert ''lakes'' 2,
          Console (TableError ''roads'' ''UNIQUE constraint failed: roads.fid''),
          Console (Failed ''UNIQUE constraint failed: roads.fid'')]"
  by (simp add: step_defs world_defs fs_defs table_entry_def)


lemma calm_run:
  "exit_code (merge_ts calm_world [''north.gpkg'', ''south.gpkg''] example_fs) = 0"
  by (simp add: step_defs world_defs fs_defs table_entry_def)

lemma orphan_run:
  "exit_code (merge_ts calm_world [''north.gpkg'', ''odd.gpkg''] orphan_fs) = 2
   \<and> outcome (merge_ts calm_world [''north.gpkg'', ''odd.gpkg''] orphan_fs)
       = Aborted (plain_error ''Could not get table structure for orphan'')
   \<and> trace (final (merge_ts calm_world [''north.gpkg'', ''odd.gpkg''] orphan_fs))
       = [Console Banner, Console (DatasetSize ''north''), Console (DatasetSize ''odd''),
          FsCopy ''north.gpkg'' ''merged_north_odd.gpkg'',
          DbOpen ''merged_north_odd.gpkg'' False, DbOpen ''odd.gpkg'' True,
          Console Merging, SqlAttach (attach_sql ''odd.gpkg''),
          Console (CreatingTable ''orphan''),
          Console (TableError ''orphan'' ''Could not get table structure for orphan''),
          Console (Failed ''Could not get table structure for orphan'')]"
  by (simp add: step_defs world_defs fs_defs table_entry_def)

lemma example_names_p0:
  "getName_p0 ''north.gpkg'' = ''north''" "getName_p0 ''south.gpkg'' = ''south''"
  "display_name ''north.gpkg'' d = ''north''" "display_name ''south.gpkg'' d = ''south''"
  by (simp_all add: getName_p0_def display_name_def split_pop_def strip_gpkg_suffix_def
        ascii_lower_def)

lemmas step_p0_defs =
  main_p0_def try_p0_def merge_into_p0_def validate_p0_def copy_base_p0_def
  createOutputFilename_p0_def processTable_p0_def createTableIfNotExists_p0_def
  insertTableData_p0_def count_rows_def example_names_p0

lemma calm_run_p0:
  "exit_code (main_p0 calm_world [''north.gpkg'', ''south.gpkg''] example_fs) = 0"
  by (simp add: step_defs step_p0_defs world_defs fs_defs table_entry_def)

lemma stuck_run_p0:
  "resource_events (final (main_p0 stuck_world [''north.gpkg'', ''south.gpkg''] example_fs))
     = acquired ''south.gpkg'' ''merged_north_south.gpkg''"
  by (simp add: step_defs step_p0_defs world_defs fs_defs table_entry_def
        resource_events_def acquired_def)

section \<open>Per-table failures\<close>

lemma merge_tables_p0_step:
  assumes "processTable_p0 w src tgt t s = (Inr n, s1)"
  shows "merge_tables_p0 w src tgt (t # ts) acc s = merge_tables_p0 w src tgt ts (acc + n) s1"
  using assms by simp

lemma merge_tables_step_failed:
  assumes "processTable w src tgt t s = (Inl e, s1)"
  shows "merge_tables w src tgt (t # ts) acc s = (Inl e, emit (Console (TableError t (message e))) s1)"
  using assms by simp

lemma table_error_reported:
  assumes "Console (TableError t m) \<in> set (trace (final (merge_ts w args s0)))" "trace s0 = []"
  shows "table_errors (final (merge_ts w args s0)) \<noteq> table_errors s0"
proof -
  from assms(1) have "Console (TableError t m) \<in> set (table_errors (final (merge_ts w args s0)))"
    by (simp add: table_errors_def)
  moreover from assms(2) have "table_errors s0 = []" by (simp add: table_errors_def)
  ultimately show ?thesis by auto
qed

text \<open>
  Claim C1, as the code has it. In the variant \<^verbatim>\<open>part_000\<close> a failing insert is
  caught inside \<^verbatim>\<open>processTable\<close>: the table contributes 0 rows, the error is
  reported, and the loop goes on and processes every source table. In
  \<^verbatim>\<open>merge.ts\<close> the \<^verbatim>\<open>catch\<close> of the loop reports the error and throws it
  again: the loop stops at the failing table and a run that reported a
  per-table error ends with exit code 2.
\<close>

theorem C1_failure_isolation:
  "(\<exists>n s'. merge_tables_p0 w src tgt ts acc s = (Inr n, s')
        \<and> processed s' = processed s @ ts)
   \<and> (files s tgt = Some db \<and> tableExists s tgt t \<and> insert_res w db t = Inl m \<longrightarrow>
        processTable_p0 w src tgt t s
          = (Inr 0, emit (Console (TableError t m)) (emit (Console (Processing t)) s))
        \<and> merge_tables_p0 w src tgt (t # ts) acc s
          = merge_tables_p0 w src tgt ts acc
              (emit (Console (TableError t m)) (emit (Console (Processing t)) s))
        \<and> merge_tables w src tgt (t # ts) acc s
          = (Inl (plain_error m), emit (Console (TableError t m)) s))
   \<and> (table_errors (final (merge_ts w args s0)) \<noteq> table_errors s0 \<longrightarrow>
        exit_code (merge_ts w args s0) = 2)"
proof (intro conjI impI)
  from merge_tables_p0_returns [of w src tgt ts acc s]
  show "\<exists>n s'. merge_tables_p0 w src tgt ts acc s = (Inr n, s')
        \<and> processed s' = processed s @ ts"
    by blast
next
  assume a: "files s tgt = Some db \<and> tableExists s tgt t \<and> insert_res w db t = Inl m"
  then have f: "files s tgt = Some db" and e: "tableExists s tgt t"
    and i: "insert_res w db t = Inl m"
    by blast+
  from f e i show p: "processTable_p0 w src tgt t s
          = (Inr 0, emit (Console (TableError t m)) (emit (Console (Processing t)) s))"
    by (rule processTable_p0_rejected)
  from merge_tables_p0_step [OF p, of ts acc]
  show "merge_tables_p0 w src tgt (t # ts) acc s
          = merge_tables_p0 w src tgt ts acc
              (emit (Console (TableError t m)) (emit (Console (Processing t)) s))"
    by simp
  from f e i have "processTable w src tgt t s = (Inl (plain_error m), s)"
    by (rule processTable_rejected)
  from merge_tables_step_failed [OF this, of ts acc]
  show "merge_tables w src tgt (t # ts) acc s
          = (Inl (plain_error m), emit (Console (TableError t m)) s)"
    by simp
next
  assume "table_errors (final (merge_ts w args s0)) \<noteq> table_errors s0"
  from merge_ts_reported [OF this] show "exit_code (merge_ts w args s0) = 2"
    by simp
qed

theorem C1_failure_isolation_witness:
  "files example_fs ''north.gpkg'' = Some north_db
   \<and> tableExists example_fs ''north.gpkg'' ''roads''
   \<and> insert_res collision_world north_db ''roads'' = Inl ''UNIQUE constraint failed: roads.fid''
   \<and> processTable_p0 collision_world ''south.gpkg'' ''north.gpkg'' ''roads'' example_fs
       = (Inr 0, emit (Console (TableError ''roads'' ''UNIQUE constraint failed: roads.fid''))
                   (emit (Console (Processing ''roads'')) example_fs))
   \<and> merge_tables collision_world ''south.gpkg'' ''north.gpkg'' [''roads'', ''rivers''] 0 example_fs
       = (Inl (plain_error ''UNIQUE constraint failed: roads.fid''),
          emit (Console (TableError ''roads'' ''UNIQUE constraint failed: roads.fid'')) example_fs)
   \<and> table_errors (final (merge_ts collision_world [''north.gpkg'', ''south.gpkg''] example_fs))
       \<noteq> table_errors example_fs
   \<and> exit_code (merge_ts collision_world [''north.gpkg'', ''south.gpkg''] example_fs) = 2"
  using C1_failure_isolation [of collision_world "''south.gpkg''" "''north.gpkg''" "[''rivers'']" 0
      example_fs north_db "''roads''" "''UNIQUE constraint failed: roads.fid''"
      "[''north.gpkg'', ''south.gpkg'']" example_fs]
    collision_run
  by (simp add: example_fs_def tableExists_def master_row_def collision_world_def
        table_errors_def table_entry_def north_db_def)

text \<open>Claim C1 as stated fails on \<^verbatim>\<open>merge.ts\<close>: of the source tables
  \<^verbatim>\<open>lakes\<close>, \<^verbatim>\<open>roads\<close>, \<^verbatim>\<open>rivers\<close> the second collides with the target; the
  run ends with exit code 2 and never reaches \<^verbatim>\<open>rivers\<close>.\<close>

theorem C1_counterexample:
  "data_tables_query south_db = [''lakes'', ''roads'', ''rivers'']
   \<and> exit_code (merge_ts collision_world [''north.gpkg'', ''south.gpkg''] example_fs) = 2
   \<and> SqlInsert ''lakes'' 2
       \<in> set (trace (final (merge_ts collision_world [''north.gpkg'', ''south.gpkg''] example_fs)))
   \<and> SqlInsert ''rivers'' 2
       \<notin> set (trace (final (merge_ts collision_world [''north.gpkg'', ''south.gpkg''] example_fs)))"
  using collision_run by (simp add: example_tables)




section \<open>Release of the resources\<close>

text \<open>
  Claim C3, as the code has it. Detach and the two closes are statements behind
  the table loop, not a cleanup handler. A completed run has attached, detached
  and closed both handles, in this order. In \<^verbatim>\<open>merge.ts\<close> a run that reported a
  per-table error ends with exit code 2 with the source still attached and both
  handles open. In the variant \<^verbatim>\<open>part_000\<close>, where per-table errors do not leave
  \<^verbatim>\<open>processTable\<close>, a run ends in that condition only when the detach statement
  itself fails.
\<close>

theorem C3_release:
  "(exit_code (merge_ts w args s0) = 0 \<longrightarrow>
      resource_events (final (merge_ts w args s0)) =
        resource_events s0
        @ acquired (args ! 1)
            (output_path w s0 (createOutputFilename (args ! 0) (args ! 1) (optional_arg args 2)))
        @ released (args ! 1)
            (output_path w s0 (createOutputFilename (args ! 0) (args ! 1) (optional_arg args 2))))
   \<and> (table_errors (final (merge_ts w args s0)) \<noteq> table_errors s0 \<longrightarrow>
        exit_code (merge_ts w args s0) = 2
        \<and> resource_events (final (merge_ts w args s0)) =
            resource_events s0
            @ acquired (args ! 1)
                (output_path w s0 (createOutputFilename (args ! 0) (args ! 1) (optional_arg args 2))))
   \<and> (exit_code (main_p0 w args s0) = 0 \<longrightarrow>
        (\<exists>out. resource_events (final (main_p0 w args s0)) =
           resource_events s0 @ acquired (args ! 1) out @ released (args ! 1) out))
   \<and> (resource_events (final (main_p0 w args s0)) = resource_events s0 @ acquired file2 out \<longrightarrow>
        (\<exists>m. detach_err w = Some m \<and> outcome (main_p0 w args s0) = Aborted (plain_error m)))"
proof (intro conjI impI)
  assume "exit_code (merge_ts w args s0) = 0"
  from merge_ts_completed [OF this]
  show "resource_events (final (merge_ts w args s0)) =
        resource_events s0
        @ acquired (args ! 1)
            (output_path w s0 (createOutputFilename (args ! 0) (args ! 1) (optional_arg args 2)))
        @ released (args ! 1)
            (output_path w s0 (createOutputFilename (args ! 0) (args ! 1) (optional_arg args 2)))"
    by simp
next
  assume a: "table_errors (final (merge_ts w args s0)) \<noteq> table_errors s0"
  from merge_ts_reported [OF a] show "exit_code (merge_ts w args s0) = 2" by simp
  from merge_ts_reported [OF a]
  show "resource_events (final (merge_ts w args s0)) =
            resource_events s0
            @ acquired (args ! 1)
                (output_path w s0 (createOutputFilename (args ! 0) (args ! 1) (optional_arg args 2)))"
    by simp
next
  assume "exit_code (main_p0 w args s0) = 0"
  then show "\<exists>out. resource_events (final (main_p0 w args s0)) =
           resource_events s0 @ acquired (args ! 1) out @ released (args ! 1) out"
    by (rule main_p0_completed)
next
  assume "resource_events (final (main_p0 w args s0)) = resource_events s0 @ acquired file2 out"
  then show "\<exists>m. detach_err w = Some m \<and> outcome (main_p0 w args s0) = Aborted (plain_error m)"
    by (rule main_p0_attached)
qed

theorem C3_release_witness:
  "exit_code (merge_ts calm_world [''north.gpkg'', ''south.gpkg''] example_fs) = 0
   \<and> resource_events (final (merge_ts calm_world [''north.gpkg'', ''south.gpkg''] example_fs))
       = [DbOpen ''merged_north_south.gpkg'' False, DbOpen ''south.gpkg'' True,
          SqlAttach (attach_sql ''south.gpkg''),
          SqlDetach, DbClose ''south.gpkg'', DbClose ''merged_north_south.gpkg'']
   \<and> exit_code (main_p0 calm_world [''north.gpkg'', ''south.gpkg''] example_fs) = 0
   \<and> resource_events (final (main_p0 stuck_world [''north.gpkg'', ''south.gpkg''] example_fs))
       = resource_events example_fs @ acquired ''south.gpkg'' ''merged_north_south.gpkg''
   \<and> outcome (main_p0 stuck_world [''north.gpkg'', ''south.gpkg''] example_fs)
       = Aborted (plain_error ''database source_db is locked'')"
  using C3_release [of calm_world "[''north.gpkg'', ''south.gpkg'']" example_fs]
    C3_release [of stuck_world "[''north.gpkg'', ''south.gpkg'']" example_fs
      "''south.gpkg''" "''merged_north_south.gpkg''"]
    calm_run calm_run_p0 stuck_run_p0
  by (simp add: acquired_def released_def output_path_def existsSync_def example_fs_def
        createOutputFilename_def optional_arg_def example_names resource_events_def
        stuck_world_def)

text \<open>Claim C3 as stated fails on \<^verbatim>\<open>merge.ts\<close>: in the run with the colliding
  table the attach has succeeded, and the run ends without the detach and
  without closing either handle.\<close>

theorem C3_counterexample:
  "SqlAttach (attach_sql ''south.gpkg'')
     \<in> set (trace (final (merge_ts collision_world [''north.gpkg'', ''south.gpkg''] example_fs)))
   \<and> SqlDetach
     \<notin> set (trace (final (merge_ts collision_world [''north.gpkg'', ''south.gpkg''] example_fs)))
   \<and> DbClose ''south.gpkg''
     \<notin> set (trace (final (merge_ts collision_world [''north.gpkg'', ''south.gpkg''] example_fs)))
   \<and> DbClose ''merged_north_south.gpkg''
     \<notin> set (trace (final (merge_ts collision_world [''north.gpkg'', ''south.gpkg''] example_fs)))"
  using collision_run by simp

section \<open>The output file\<close>

lemma length_replace_first: "length s \<le> length (replace_first pat [] s) + length pat"
proof (induction s)
  case Nil
  then show ?case by (simp add: replace_first.simps)
next
  case (Cons c cs)
  show ?case
  proof (cases "prefix pat (c # cs)")
    case True
    then show ?thesis by (subst replace_first.simps) simp
  next
    case False
    with Cons show ?thesis by (subst replace_first.simps) simp
  qed
qed

text \<open>The path with the time stamp differs from the path it is made from.\<close>

lemma disambiguate_differs: "disambiguate w outputFilename \<noteq> outputFilename"
proof
  assume "disambiguate w outputFilename = outputFilename"
  then have "length (disambiguate w outputFilename) = length outputFilename"
    by simp
  moreover have "length outputFilename
      \<le> length (replace_first (path_extname outputFilename) [] outputFilename)
        + length (path_extname outputFilename)"
    by (rule length_replace_first)
  ultimately show False
    by (simp add: disambiguate_def Let_def)
qed

lemma merge_try_keeps_existing:
  assumes "files s o1 = Some d" "merge_try w file1 file2 o1 s = (r, s')"
  shows "files s' o1 = Some d"
  using assms(2)
proof (cases rule: merge_try_cases)
  case (invalid e)
  with assms(1) show ?thesis by simp
next
  case (nostat e)
  with assms(1) logFileSizes_files [OF nostat(1)] show ?thesis by simp
next
  case (nocopy e names s2)
  with assms(1) logFileSizes_files [OF nocopy(1)] copy_base_failed [OF nocopy(2)]
  show ?thesis by simp
next
  case (copied names s2 out s3)
  from logFileSizes_files [OF copied(1)] have f2: "files s2 = files s" .
  with assms(1) have "existsSync s2 o1" by (simp add: existsSync_def)
  with copy_base_ok [OF copied(2)] have out: "out = disambiguate w o1"
    by (simp add: output_path_def)
  with disambiguate_differs [of w o1] have ne: "out \<noteq> o1" by simp
  with copy_base_ok [OF copied(2)] f2 assms(1) have "files s3 o1 = Some d" by simp
  with keepsD [OF keeps_merge_into [OF ne] copied(3)] show ?thesis by simp
qed

lemma merge_ts_keeps_existing:
  assumes "files s0 (createOutputFilename (args ! 0) (args ! 1) (optional_arg args 2)) = Some d"
  shows "files (final (merge_ts w args s0))
           (createOutputFilename (args ! 0) (args ! 1) (optional_arg args 2)) = Some d"
proof (cases "length args < 2")
  case True
  with assms show ?thesis by (simp add: merge_ts_def)
next
  case False
  let ?s = "emit (Console Banner) s0"
  let ?o = "createOutputFilename (args ! 0) (args ! 1) (optional_arg args 2)"
  obtain r s' where t: "merge_try w (args ! 0) (args ! 1) ?o ?s = (r, s')"
    by (cases "merge_try w (args ! 0) (args ! 1) ?o ?s")
  from assms have "files ?s ?o = Some d" by simp
  from merge_try_keeps_existing [OF this t] have "files s' ?o = Some d" .
  with False t show ?thesis
    by (cases r) (simp_all add: merge_ts_def Let_def)
qed

lemma copy_base_fixed_replaces:
  assumes "files s file1 = Some d1" "files s out = Some d"
    "unlink_err w out = None" "copy_err w file1 out = None" "file1 \<noteq> out"
  shows "copy_base_fixed w file1 out s =
           (Inr (), s\<lparr>files := (files s)(out \<mapsto> d1),
                       trace := trace s @ [FsUnlink out, FsCopy file1 out]\<rparr>)"
  using assms
  by (simp add: copy_base_fixed_def existsSync_def unlinkSync_def copyFileSync_def
        io_bind_def emit_def)



lemma example_output:
  "createOutputFilename ''north.gpkg'' ''south.gpkg'' None = ''merged_north_south.gpkg''"
  "now w = 17 \<Longrightarrow> disambiguate w ''merged_north_south.gpkg'' = ''merged_north_south_17.gpkg''"
  by (simp_all add: createOutputFilename_def example_names disambiguate_def
        path_extname_def path_basename_def replace_first.simps show_nat.simps)

lemma rerun:
  "exit_code (merge_ts calm_world [''north.gpkg'', ''south.gpkg''] rerun_fs) = 0"
  by (simp add: step_defs world_defs rerun_fs_def table_entry_def example_output(2))


lemma fixed_paths_p2 [simp]:
  "file1_p2 \<noteq> file2_p2" "file1_p2 \<noteq> output_p2" "file2_p2 \<noteq> output_p2"
  "file2_p2 \<noteq> file1_p2" "output_p2 \<noteq> file1_p2" "output_p2 \<noteq> file2_p2"
  by (simp_all add: file1_p2_def file2_p2_def output_p2_def)

lemma attach_p2:
  "\<not> sql_unterminated (attach_sql file2_p2)"
  "parse_attach (attach_sql file2_p2) = Some file2_p2"
  by (simp_all add: sql_unterminated_def parse_attach_def attach_sql_def sq_def file2_p2_def)

lemmas step_p2_defs =
  main_p2_def try_p2_def merge_into_p2_def validate_fixed_def copy_base_fixed_def
  unlinkSync_def process_p2_def ensure_table_p2_def count_rows_def attach_p2

lemma rowcounts [simp]:
  "rowcount north_db t = 3" "rowcount south_db t = 2" "rowcount orphan_db t = 1"
  by (simp_all add: north_db_def south_db_def orphan_db_def)

lemma replace_run_p2:
  "exit_code (main_p2 calm_world syria_fs) = 0
   \<and> trace (final (main_p2 calm_world syria_fs))
       = [Console Banner, Console (DatasetSize ''Syria''), Console (DatasetSize ''Blue Marble''),
          FsUnlink output_p2, FsCopy file1_p2 output_p2,
          DbOpen output_p2 False, DbOpen file2_p2 True,
          Console (TableRows ''roads'' 3), Console (TableRows ''lakes'' 2),
          Console (TableRows ''roads'' 2), Console (TableRows ''rivers'' 2),
          SqlAttach (attach_sql file2_p2),
          Console (Processing ''lakes''), Console (CreatingTable ''lakes''),
          SqlCreate ''CREATE TABLE lakes'', Console TableCreated, SqlInsert ''lakes'' 2,
          Console (RowsAdded ''lakes'' 2),
          Console (Processing ''roads''), SqlInsert ''roads'' 2, Console (RowsAdded ''roads'' 2),
          Console (Processing ''rivers''), Console (CreatingTable ''rivers''),
          SqlCreate ''CREATE TABLE rivers'', Console TableCreated, SqlInsert ''rivers'' 2,
          Console (RowsAdded ''rivers'' 2),
          SqlDetach, DbClose file2_p2, DbClose output_p2,
          Console (MergeComplete 6 output_p2)]
   \<and> map_option (map ce_name \<circ> catalog) (files (final (main_p2 calm_world syria_fs)) output_p2)
       = Some [''gpkg_contents'', ''roads'', ''lakes'', ''rivers'']"
  by (simp add: step_defs step_p2_defs world_defs syria_fs_def table_entry_def)



section \<open>The attach statement\<close>

lemma sql_string_body_plain:
  "sq \<notin> set p \<Longrightarrow> rest \<noteq> [] \<Longrightarrow> hd rest \<noteq> sq \<Longrightarrow>
     sql_string_body (p @ sq # rest) = Some (p, rest)"
proof (induction p)
  case Nil
  then show ?case by (cases rest) simp_all
next
  case (Cons c cs)
  then have "sql_string_body (cs @ sq # rest) = Some (cs, rest)" by simp
  with Cons.prems(1) show ?case by (cases cs) auto
qed

text \<open>For a path without single quote the statement names the path.\<close>

lemma parse_attach_plain: "sq \<notin> set p \<Longrightarrow> parse_attach (attach_sql p) = Some p"
proof -
  assume "sq \<notin> set p"
  then have "sql_string_body (p @ sq # '' AS source_db'') = Some (p, '' AS source_db'')"
    by (intro sql_string_body_plain) (simp_all add: sq_def)
  then show ?thesis by (simp add: parse_attach_def attach_sql_def)
qed

lemma attach_sql_unterminated:
  assumes "odd (count_list p sq)"
    and "set p \<inter> {CHR 0x22, CHR 0x60, CHR ''['', CHR ''-'', CHR ''*''} = {}"
  shows "sql_unterminated (attach_sql p)"
  using assms by (auto simp: sql_unterminated_def attach_sql_def sq_def)

lemma exec_attach_accepts: "exec_attach w h sql s = (Inr x, s') \<Longrightarrow> \<not> sql_unterminated sql"
  by (auto simp: exec_attach_def split: if_splits)

lemma merge_into_accepts:
  assumes "merge_into w file2 out s = (Inr n, s')"
  shows "\<not> sql_unterminated (attach_sql file2)"
  using assms unfolding merge_into_def
  by (elim io_bind_cases; clarsimp) (auto dest!: exec_attach_accepts)

lemma merge_into_p0_accepts:
  assumes "merge_into_p0 w file2 out s = (Inr n, s')"
  shows "\<not> sql_unterminated (attach_sql file2)"
  using assms unfolding merge_into_p0_def
  by (elim io_bind_cases; clarsimp) (auto dest!: exec_attach_accepts)

lemma merge_try_accepts:
  assumes "merge_try w file1 file2 o1 s = (Inr n, s')"
  shows "\<not> sql_unterminated (attach_sql file2)"
  using assms by (cases rule: merge_try_cases) (auto dest: merge_into_accepts)

lemma merge_ts_unterminated:
  assumes "2 \<le> length args" "existsSync s0 (args ! 0)" "existsSync s0 (args ! 1)"
    "sql_unterminated (attach_sql (args ! 1))"
  shows "exit_code (merge_ts w args s0) = 2"
proof -
  let ?s = "emit (Console Banner) s0"
  let ?o = "createOutputFilename (args ! 0) (args ! 1) (optional_arg args 2)"
  obtain r s' where t: "merge_try w (args ! 0) (args ! 1) ?o ?s = (r, s')"
    by (cases "merge_try w (args ! 0) (args ! 1) ?o ?s")
  from t assms(4) merge_try_accepts obtain e where r: "r = Inl e"
    by (cases r) auto
  with assms(1) t have "outcome (merge_ts w args s0) = Aborted e"
    by (simp add: merge_ts_def Let_def)
  with merge_ts_exit_code [of w args s0] assms(2,3) show ?thesis by simp
qed


lemma validate_p0_present:
  "existsSync s file1 \<Longrightarrow> existsSync s file2 \<Longrightarrow> validate_p0 file1 file2 s = (Inr (), s)"
  by (simp add: validate_p0_def)

lemma log_counts_plain: "log_counts w h ts s = (Inl e, s') \<Longrightarrow> status e = None"
proof (induction ts arbitrary: s)
  case Nil
  then show ?case by simp
next
  case (Cons t ts)
  then show ?case
    by (auto split: prod.splits sum.splits dest: plainD [OF plain_count_rows])
qed

lemma copy_base_p0_plain: "copy_base_p0 w file1 o1 s = (Inl e, s') \<Longrightarrow> status e = None"
  by (auto simp: copy_base_p0_unfold split: if_splits elim!: io_bind_cases
           dest: plainD [OF plain_copyFileSync])

lemma merge_into_p0_plain:
  assumes "merge_into_p0 w file2 out s = (Inl e, s')"
  shows "status e = None"
  using assms unfolding merge_into_p0_def
  by (elim io_bind_cases; clarsimp)
     (auto dest: plainD [OF plain_open_database] plainD [OF plain_getDataTables]
        log_counts_plain plainD [OF plain_exec_attach] merge_tables_p0_never
        plainD [OF plain_exec_detach] plainD [OF plain_close_database]
        plainD [OF plain_statSync])

lemma try_p0_present_plain:
  assumes "existsSync s file1" "existsSync s file2"
    and "try_p0 w file1 file2 o1 s = (Inl e, s')"
  shows "status e = None"
  using assms(3) validate_p0_present [OF assms(1,2)] unfolding try_p0_def
  by (elim io_bind_cases; clarsimp)
     (auto dest: plainD [OF plain_statSync] copy_base_p0_plain merge_into_p0_plain)

lemma try_p0_accepts:
  assumes "try_p0 w file1 file2 o1 s = (Inr n, s')"
  shows "\<not> sql_unterminated (attach_sql file2)"
  using try_p0_split [OF assms] by (auto dest: merge_into_p0_accepts)

lemma main_p0_unterminated:
  assumes "2 \<le> length args" "existsSync s0 (args ! 0)" "existsSync s0 (args ! 1)"
    "sql_unterminated (attach_sql (args ! 1))"
  shows "exit_code (main_p0 w args s0) = 2"
proof -
  let ?s = "emit (Console Banner) s0"
  let ?o = "createOutputFilename_p0 (args ! 0) (args ! 1) (optional_arg args 2)"
  obtain r s' where t: "try_p0 w (args ! 0) (args ! 1) ?o ?s = (r, s')"
    by (cases "try_p0 w (args ! 0) (args ! 1) ?o ?s")
  from t assms(4) try_p0_accepts obtain e where r: "r = Inl e"
    by (cases r) auto
  from assms(2,3) have "existsSync ?s (args ! 0)" "existsSync ?s (args ! 1)" by simp_all
  from try_p0_present_plain [OF this t [unfolded r]] have "status e = None" .
  with assms(1) t r show ?thesis
    by (simp add: main_p0_def Let_def)
qed

lemma merge_ts_resource_prefix:
  "prefix (resource_events (final (merge_ts w args s0)))
     (resource_events s0
      @ acquired (args ! 1)
          (output_path w s0 (createOutputFilename (args ! 0) (args ! 1) (optional_arg args 2)))
      @ released (args ! 1)
          (output_path w s0 (createOutputFilename (args ! 0) (args ! 1) (optional_arg args 2))))"
proof (cases "length args < 2")
  case True
  then show ?thesis by (simp add: merge_ts_def)
next
  case False
  let ?s = "emit (Console Banner) s0"
  let ?o = "createOutputFilename (args ! 0) (args ! 1) (optional_arg args 2)"
  obtain r s' where t: "merge_try w (args ! 0) (args ! 1) ?o ?s = (r, s')"
    by (cases "merge_try w (args ! 0) (args ! 1) ?o ?s")
  show ?thesis
  proof (cases r)
    case (Inr n)
    with False t merge_try_ok [OF t [unfolded Inr]] show ?thesis
      by (simp add: merge_ts_def Let_def)
  next
    case (Inl e)
    with False t merge_try_failed [OF t [unfolded Inl]] show ?thesis
      by (simp add: merge_ts_def Let_def)
  qed
qed

lemma merge_ts_attach_statement:
  assumes "SqlAttach sql \<in> set (trace (final (merge_ts w args s0)))" "trace s0 = []"
  shows "sql = attach_sql (args ! 1)"
proof -
  from assms(1) have "SqlAttach sql \<in> set (resource_events (final (merge_ts w args s0)))"
    by (simp add: resource_events_def)
  with set_mono_prefix [OF merge_ts_resource_prefix [of w args s0]] assms(2)
  show ?thesis
    by (auto simp: resource_events_def acquired_def released_def)
qed



lemma quoted_paths:
  "sq \<in> set quoted_path" "sq \<in> set doubled_path"
  "odd (count_list quoted_path sq)"
  "set quoted_path \<inter> {CHR 0x22, CHR 0x60, CHR ''['', CHR ''-'', CHR ''*''} = {}"
  "existsSync quoted_fs ''north.gpkg''" "existsSync quoted_fs quoted_path"
  "existsSync quoted_fs doubled_path" "trace quoted_fs = []"
  by (simp_all add: quoted_path_def doubled_path_def sq_def quoted_fs_def existsSync_def)

lemma doubled_attach:
  "\<not> sql_unterminated (attach_sql doubled_path)"
  "parse_attach (attach_sql doubled_path) = Some quoted_path"
  by (simp_all add: sql_unterminated_def parse_attach_def attach_sql_def sq_def
        doubled_path_def quoted_path_def)

lemma doubled_run:
  "exit_code (merge_ts calm_world [''north.gpkg'', doubled_path] quoted_fs) = 0"
  by (simp add: step_defs world_defs quoted_fs_def table_entry_def doubled_path_def
        quoted_path_def sq_def getName_def path_basename_def path_extname_def
        replace_first.simps sql_unterminated_def parse_attach_def attach_sql_def)




end
